theory Spec2Isabelle
  imports Main "HOL-Library.Word"
begin

unbundle bit_operations_syntax

section \<open>FrameTimeline: data model\<close>

text \<open>
  The embedding follows \<^verbatim>\<open>services/surfaceflinger/FrameTimeline/FrameTimeline.cpp\<close>.
  Timestamps and durations (\<^verbatim>\<open>nsecs_t\<close>, a signed 64-bit count of nanoseconds) and tokens
  (\<^verbatim>\<open>int64_t\<close>) are modelled as \<open>int\<close>: the values are readings of the monotonic clock
  and a counter that starts near zero, and every result below is about runs in which their
  sums and differences stay inside the 64-bit range, so no wrap-around is written out.
  Jank bitmasks (\<^verbatim>\<open>int32_t\<close>) are 32-bit words and the history bound
  (\<^verbatim>\<open>uint32_t\<close>) is a 32-bit word read with \<open>unat\<close>.
\<close>

type_synonym nsecs_t = int

record TimelineItem =
  startTime :: nsecs_t
  endTime :: nsecs_t
  presentTime :: nsecs_t

section \<open>TokenManager\<close>

text \<open>
  \<^verbatim>\<open>mPredictions\<close> is an ordered map from token to (timestamp, predictions); the code
  iterates it from \<^verbatim>\<open>begin()\<close>, so it is modelled as an association list kept in ascending
  key order. \<open>map_assign\<close> is \<^verbatim>\<open>m[k] = v\<close> on such a map and \<open>map_of\<close> is \<^verbatim>\<open>find\<close>.
\<close>

record TokenManagerPrediction =
  timestamp :: nsecs_t
  predictions :: TimelineItem

record TokenManager =
  mCurrentToken :: int
  mPredictions_tm :: "(int \<times> TokenManagerPrediction) list"

fun map_assign :: "int \<Rightarrow> 'v \<Rightarrow> (int \<times> 'v) list \<Rightarrow> (int \<times> 'v) list" where
  "map_assign k v [] = [(k, v)]"
| "map_assign k v ((k', v') # m) =
     (if k < k' then (k, v) # (k', v') # m
      else if k = k' then (k, v) # m
      else (k', v') # map_assign k v m)"

text \<open>
  \<^verbatim>\<open>flushTokens\<close>: erase from the front while the entry is at least
  \<^verbatim>\<open>kMaxRetentionTime\<close> old, stop at the first younger entry. The constant is declared in a
  header that is not part of the sources at hand, so it is the first parameter.
\<close>

fun flushTokens :: "nsecs_t \<Rightarrow> nsecs_t \<Rightarrow> (int \<times> TokenManagerPrediction) list
    \<Rightarrow> (int \<times> TokenManagerPrediction) list" where
  "flushTokens kMaxRetentionTime flushTime [] = []"
| "flushTokens kMaxRetentionTime flushTime ((k, e) # m) =
     (if flushTime - timestamp e \<ge> kMaxRetentionTime
      then flushTokens kMaxRetentionTime flushTime m
      else (k, e) # m)"

text \<open>
  \<^verbatim>\<open>generateTokenForPredictions\<close> reads the clock twice: \<open>now1\<close> is stored with the
  entry, \<open>now2\<close> is the flush time.
\<close>

definition generateTokenForPredictions ::
    "nsecs_t \<Rightarrow> nsecs_t \<Rightarrow> nsecs_t \<Rightarrow> TimelineItem \<Rightarrow> TokenManager \<Rightarrow> int \<times> TokenManager" where
  "generateTokenForPredictions kMaxRetentionTime now1 now2 p tm =
     (let assignedToken = mCurrentToken tm;
          m1 = map_assign assignedToken \<lparr>timestamp = now1, predictions = p\<rparr> (mPredictions_tm tm)
      in (assignedToken,
          \<lparr>mCurrentToken = assignedToken + 1,
           mPredictions_tm = flushTokens kMaxRetentionTime now2 m1\<rparr>))"

definition getPredictionsForToken :: "TokenManager \<Rightarrow> int \<Rightarrow> TimelineItem option" where
  "getPredictionsForToken tm token =
     (case map_of (mPredictions_tm tm) token of
        Some e \<Rightarrow> Some (predictions e)
      | None \<Rightarrow> None)"

text \<open>
  A run of the ledger after some point: each later issue is its predictions and its two
  clock readings. \<open>chronological now ops\<close> says the readings never go back, starting at
  \<open>now\<close>; \<open>last_flush\<close> is the time of the most recent flush.
\<close>

type_synonym issue = "TimelineItem \<times> nsecs_t \<times> nsecs_t"

fun issue_all :: "nsecs_t \<Rightarrow> issue list \<Rightarrow> TokenManager \<Rightarrow> TokenManager" where
  "issue_all W [] tm = tm"
| "issue_all W ((p, now1, now2) # ops) tm =
     issue_all W ops (snd (generateTokenForPredictions W now1 now2 p tm))"

fun chronological :: "nsecs_t \<Rightarrow> issue list \<Rightarrow> bool" where
  "chronological now [] = True"
| "chronological now ((p, now1, now2) # ops) =
     (now \<le> now1 \<and> now1 \<le> now2 \<and> chronological now2 ops)"

fun last_flush :: "nsecs_t \<Rightarrow> issue list \<Rightarrow> nsecs_t" where
  "last_flush f [] = f"
| "last_flush f ((p, now1, now2) # ops) = last_flush now2 ops"

text \<open>
  The invariant of the ledger at clock reading \<open>now\<close>: keys ascending and below the counter,
  timestamps ascending with the keys and not in the future.
\<close>

definition tm_inv :: "nsecs_t \<Rightarrow> TokenManager \<Rightarrow> bool" where
  "tm_inv now tm \<longleftrightarrow>
     sorted_wrt (<) (map fst (mPredictions_tm tm)) \<and>
     list_all (\<lambda>(k, e). k < mCurrentToken tm \<and> timestamp e \<le> now) (mPredictions_tm tm) \<and>
     sorted (map (\<lambda>(k, e). timestamp e) (mPredictions_tm tm))"


section \<open>Enumerations and constants\<close>

datatype PredictionState = Valid | Expired | PredictionState_None

datatype PresentState = Presented | Dropped | PresentState_Unknown

datatype FramePresentMetadata = OnTimePresent | LatePresent | EarlyPresent | UnknownPresent

datatype FrameReadyMetadata = OnTimeFinish | LateFinish | UnknownFinish

datatype FrameStartMetadata = OnTimeStart | LateStart | EarlyStart | UnknownStart

text \<open>
  Modelled from the spec: the \<^verbatim>\<open>JankType\<close> enumeration is declared in a header outside the
  sources at hand. The spec (section 3) lists it as a bitmask over the causes None,
  DisplayDriverLate, CompositorCpuDeadlineMissed, CompositorGpuDeadlineMissed,
  ProducerDeadlineMissed, PredictionError, CompositorScheduling, BufferStuffing, Unknown;
  \<^verbatim>\<open>jankTypeBitmaskToString\<close> tests the causes one bit at a time in this order and treats
  None as the empty mask. The constants carry the names the code uses.
\<close>

definition JankType_None :: "32 word" where "JankType_None = 0x0"
definition DisplayHAL :: "32 word" where "DisplayHAL = 0x1"
definition SurfaceFlingerCpuDeadlineMissed :: "32 word" where
  "SurfaceFlingerCpuDeadlineMissed = 0x2"
definition SurfaceFlingerGpuDeadlineMissed :: "32 word" where
  "SurfaceFlingerGpuDeadlineMissed = 0x4"
definition AppDeadlineMissed :: "32 word" where "AppDeadlineMissed = 0x8"
definition PredictionError :: "32 word" where "PredictionError = 0x10"
definition SurfaceFlingerScheduling :: "32 word" where "SurfaceFlingerScheduling = 0x20"
definition BufferStuffing :: "32 word" where "BufferStuffing = 0x40"
definition JankType_Unknown :: "32 word" where "JankType_Unknown = 0x80"

record JankClassificationThresholds =
  presentThreshold :: nsecs_t
  deadlineThreshold :: nsecs_t
  startThreshold :: nsecs_t

text \<open>
  \<^verbatim>\<open>Fps\<close> is a frame rate; the code at hand only reads its \<^verbatim>\<open>getPeriodNsecs()\<close>, so a
  rate is represented by that period in nanoseconds.
\<close>

record Fps =
  getPeriodNsecs :: nsecs_t

text \<open>
  Modelled from the spec: the default-constructed \<^verbatim>\<open>Fps\<close>, which a display frame holds
  until \<^verbatim>\<open>onSfWakeUp\<close> stores a rate, is declared outside the sources at hand. Section 3
  of the spec has unset fields zero, so its period is 0. No result below depends on this
  value: each one takes the period as it finds it.
\<close>

definition Fps_default :: Fps where
  "Fps_default = \<lparr>getPeriodNsecs = 0\<rparr>"

text \<open>
  What the code can do besides returning: \<^verbatim>\<open>LOG_ALWAYS_FATAL_IF\<close> aborts the process,
  \<^verbatim>\<open>%\<close> by zero and \<^verbatim>\<open>pop_front\<close> on an empty deque are undefined behaviour.
\<close>

datatype error = FatalAbort | DivideByZero | PopFrontOnEmpty

text \<open>The remainder of C++ integer division, which truncates towards zero.\<close>

definition rem_nsecs :: "nsecs_t \<Rightarrow> nsecs_t \<Rightarrow> error + nsecs_t" where
  "rem_nsecs a b = (if b = 0 then Inl DivideByZero else Inr (sgn a * (\<bar>a\<bar> mod \<bar>b\<bar>)))"

text \<open>The argument of \<^verbatim>\<open>TimeStats::incrementJankyFrames\<close>, in the order of the initialiser.\<close>

record JankyFramesInfo =
  refreshRate :: Fps
  renderRate :: "Fps option"
  uid :: int
  layerName :: string
  jankType :: "32 word"
  displayDeadlineDelta :: nsecs_t
  displayPresentDelta :: nsecs_t
  appDeadlineDelta :: nsecs_t

section \<open>SurfaceFrame\<close>

record SurfaceFrame =
  mToken :: int
  mInputEventId :: int
  mOwnerPid :: int
  mOwnerUid :: int
  mLayerName :: string
  mDebugName :: string
  mPresentState :: PresentState
  mPredictionState :: PredictionState
  mPredictions :: TimelineItem
  mActuals :: TimelineItem
  mActualQueueTime :: nsecs_t
  mJankClassificationThresholds :: JankClassificationThresholds
  mJankType :: "32 word"
  mFramePresentMetadata :: FramePresentMetadata
  mFrameReadyMetadata :: FrameReadyMetadata
  mLastLatchTime :: nsecs_t
  mRenderRate :: "Fps option"

text \<open>
  Modelled from the spec: the in-class default member initialisers of \<^verbatim>\<open>SurfaceFrame\<close>
  are in a header outside the sources at hand. Following section 3 of the spec (unset
  fields are zero, no cause recorded) and the Unknown metadata the classifier writes when it
  knows nothing, a member the constructor does not mention starts as zero,
  \<open>JankType_None\<close>, \<open>UnknownPresent\<close>, \<open>UnknownFinish\<close> or no render rate.
\<close>

definition SurfaceFrame_defaults :: SurfaceFrame where
  "SurfaceFrame_defaults =
     \<lparr>mToken = 0, mInputEventId = 0, mOwnerPid = 0, mOwnerUid = 0, mLayerName = [],
      mDebugName = [], mPresentState = PresentState_Unknown,
      mPredictionState = PredictionState_None,
      mPredictions = \<lparr>startTime = 0, endTime = 0, presentTime = 0\<rparr>,
      mActuals = \<lparr>startTime = 0, endTime = 0, presentTime = 0\<rparr>,
      mActualQueueTime = 0,
      mJankClassificationThresholds =
        \<lparr>presentThreshold = 0, deadlineThreshold = 0, startThreshold = 0\<rparr>,
      mJankType = JankType_None, mFramePresentMetadata = UnknownPresent,
      mFrameReadyMetadata = UnknownFinish, mLastLatchTime = 0, mRenderRate = None\<rparr>"

text \<open>
  The constructor's initialiser list: the identity, \<^verbatim>\<open>mPresentState(Unknown)\<close>, the
  prediction state and predictions, zero actuals and the thresholds.
\<close>

definition SurfaceFrame_new ::
    "int \<Rightarrow> int \<Rightarrow> int \<Rightarrow> int \<Rightarrow> string \<Rightarrow> string \<Rightarrow> PredictionState \<Rightarrow> TimelineItem
     \<Rightarrow> JankClassificationThresholds \<Rightarrow> SurfaceFrame" where
  "SurfaceFrame_new vsyncId inputEventId ownerPid ownerUid layerName' debugName
      predictionState predictions' thresholds =
     SurfaceFrame_defaults
       \<lparr>mToken := vsyncId, mInputEventId := inputEventId, mOwnerPid := ownerPid,
        mOwnerUid := ownerUid, mLayerName := layerName', mDebugName := debugName,
        mPresentState := PresentState_Unknown, mPredictionState := predictionState,
        mPredictions := predictions',
        mActuals := \<lparr>startTime = 0, endTime = 0, presentTime = 0\<rparr>,
        mJankClassificationThresholds := thresholds\<rparr>"

definition setActualStartTime :: "nsecs_t \<Rightarrow> SurfaceFrame \<Rightarrow> SurfaceFrame" where
  "setActualStartTime actualStartTime sf =
     sf\<lparr>mActuals := (mActuals sf)\<lparr>startTime := actualStartTime\<rparr>\<rparr>"

definition setActualQueueTime :: "nsecs_t \<Rightarrow> SurfaceFrame \<Rightarrow> SurfaceFrame" where
  "setActualQueueTime actualQueueTime sf = sf\<lparr>mActualQueueTime := actualQueueTime\<rparr>"

definition setAcquireFenceTime :: "nsecs_t \<Rightarrow> SurfaceFrame \<Rightarrow> SurfaceFrame" where
  "setAcquireFenceTime acquireFenceTime sf =
     sf\<lparr>mActuals := (mActuals sf)\<lparr>endTime := max acquireFenceTime (mActualQueueTime sf)\<rparr>\<rparr>"

definition setPresentState :: "PresentState \<Rightarrow> nsecs_t \<Rightarrow> SurfaceFrame \<Rightarrow> error + SurfaceFrame" where
  "setPresentState presentState lastLatchTime sf =
     (if mPresentState sf \<noteq> PresentState_Unknown then Inl FatalAbort
      else Inr (sf\<lparr>mPresentState := presentState, mLastLatchTime := lastLatchTime\<rparr>))"

definition setRenderRate :: "Fps \<Rightarrow> SurfaceFrame \<Rightarrow> SurfaceFrame" where
  "setRenderRate renderRate' sf = sf\<lparr>mRenderRate := Some renderRate'\<rparr>"

definition getJankType :: "SurfaceFrame \<Rightarrow> 32 word option" where
  "getJankType sf = (if presentTime (mActuals sf) = 0 then None else Some (mJankType sf))"

text \<open>
  \<^verbatim>\<open>SurfaceFrame::onPresent\<close>. The result is the updated record and the observations handed
  to \<^verbatim>\<open>TimeStats::incrementJankyFrames\<close> (none or one).
\<close>

definition SurfaceFrame_onPresent ::
    "nsecs_t \<Rightarrow> 32 word \<Rightarrow> Fps \<Rightarrow> nsecs_t \<Rightarrow> nsecs_t \<Rightarrow> SurfaceFrame
     \<Rightarrow> error + (SurfaceFrame \<times> JankyFramesInfo list)" where
  "SurfaceFrame_onPresent presentTime' displayFrameJankType refreshRate' displayDeadlineDelta'
      displayPresentDelta' sf =
     (if mPresentState sf \<noteq> Presented then Inr (sf, [])
      else
        let sf1 = sf\<lparr>mActuals := (mActuals sf)\<lparr>presentTime := presentTime'\<rparr>\<rparr> in
        if mPredictionState sf1 = PredictionState_None then Inr (sf1, [])
        else if mPredictionState sf1 = Expired then
          (let sf2 = sf1\<lparr>mJankType := JankType_Unknown,
                         mFramePresentMetadata := UnknownPresent,
                         mFrameReadyMetadata := UnknownFinish\<rparr>
           in Inr (sf2, [\<lparr>refreshRate = refreshRate', renderRate = mRenderRate sf2,
                          uid = mOwnerUid sf2, layerName = mLayerName sf2,
                          jankType = mJankType sf2,
                          displayDeadlineDelta = displayDeadlineDelta',
                          displayPresentDelta = displayPresentDelta',
                          appDeadlineDelta = - 1\<rparr>]))
        else
          let presentDelta = presentTime (mActuals sf1) - presentTime (mPredictions sf1);
              deadlineDelta = endTime (mActuals sf1) - endTime (mPredictions sf1)
          in case rem_nsecs \<bar>presentDelta\<bar> (getPeriodNsecs refreshRate') of
               Inl e \<Rightarrow> Inl e
             | Inr deltaToVsync \<Rightarrow>
                 let th = mJankClassificationThresholds sf1;
                     sf2 = sf1\<lparr>mFrameReadyMetadata :=
                              (if deadlineDelta > deadlineThreshold th then LateFinish
                               else OnTimeFinish)\<rparr>;
                     sf3 = sf2\<lparr>mFramePresentMetadata :=
                              (if \<bar>presentDelta\<bar> > presentThreshold th
                               then (if presentDelta > 0 then LatePresent else EarlyPresent)
                               else OnTimePresent)\<rparr>;
                     sf4 =
                       (if mFramePresentMetadata sf3 = OnTimePresent
                        then sf3\<lparr>mJankType := JankType_None\<rparr>
                        else if mFramePresentMetadata sf3 = EarlyPresent then
                          (if mFrameReadyMetadata sf3 = OnTimeFinish then
                             (if deltaToVsync < presentThreshold th \<or>
                                 deltaToVsync \<ge> getPeriodNsecs refreshRate' - presentThreshold th
                              then sf3\<lparr>mJankType := SurfaceFlingerScheduling\<rparr>
                              else sf3\<lparr>mJankType := PredictionError\<rparr>)
                           else if mFrameReadyMetadata sf3 = LateFinish
                           then sf3\<lparr>mJankType := JankType_Unknown\<rparr>
                           else sf3)
                        else
                          (let sfa =
                             (if mLastLatchTime sf3 \<noteq> 0 \<and>
                                 endTime (mPredictions sf3) \<le> mLastLatchTime sf3
                              then sf3\<lparr>mJankType := mJankType sf3 OR BufferStuffing\<rparr>
                              else sf3)
                           in if mFrameReadyMetadata sfa = OnTimeFinish then
                                (if displayFrameJankType \<noteq> JankType_None
                                 then sfa\<lparr>mJankType := mJankType sfa OR displayFrameJankType\<rparr>
                                 else if deltaToVsync < presentThreshold th \<or>
                                         deltaToVsync \<ge>
                                           getPeriodNsecs refreshRate' - presentThreshold th
                                 then sfa\<lparr>mJankType := mJankType sfa OR SurfaceFlingerScheduling\<rparr>
                                 else sfa\<lparr>mJankType := mJankType sfa OR PredictionError\<rparr>)
                              else if mFrameReadyMetadata sfa = LateFinish then
                                (if displayFrameJankType = JankType_None
                                 then sfa\<lparr>mJankType := mJankType sfa OR AppDeadlineMissed\<rparr>
                                 else sfa\<lparr>mJankType := mJankType sfa OR displayFrameJankType\<rparr>)
                              else sfa))
                 in Inr (sf4, [\<lparr>refreshRate = refreshRate', renderRate = mRenderRate sf4,
                                uid = mOwnerUid sf4, layerName = mLayerName sf4,
                                jankType = mJankType sf4,
                                displayDeadlineDelta = displayDeadlineDelta',
                                displayPresentDelta = displayPresentDelta',
                                appDeadlineDelta = deadlineDelta\<rparr>]))"


section \<open>DisplayFrame\<close>

text \<open>
  A display frame holds its surface frames in insertion order. Each surface frame is added to
  one display frame, so the list holds the records themselves.
\<close>

record DisplayFrame =
  mToken_df :: int
  mPredictionState_df :: PredictionState
  mSurfaceFlingerPredictions :: TimelineItem
  mSurfaceFlingerActuals :: TimelineItem
  mJankClassificationThresholds_df :: JankClassificationThresholds
  mRefreshRate :: Fps
  mJankType_df :: "32 word"
  mFramePresentMetadata_df :: FramePresentMetadata
  mFrameReadyMetadata_df :: FrameReadyMetadata
  mFrameStartMetadata :: FrameStartMetadata
  mSurfaceFrames :: "SurfaceFrame list"

text \<open>
  Modelled from the spec: the in-class default member initialisers of \<^verbatim>\<open>DisplayFrame\<close>
  are in a header outside the sources at hand. Following section 3 of the spec, a member
  the constructor does not mention starts as the invalid token \<open>- 1\<close>, no prediction, no
  cause, Unknown metadata or the default rate.
\<close>

definition DisplayFrame_defaults :: DisplayFrame where
  "DisplayFrame_defaults =
     \<lparr>mToken_df = - 1, mPredictionState_df = PredictionState_None,
      mSurfaceFlingerPredictions = \<lparr>startTime = 0, endTime = 0, presentTime = 0\<rparr>,
      mSurfaceFlingerActuals = \<lparr>startTime = 0, endTime = 0, presentTime = 0\<rparr>,
      mJankClassificationThresholds_df =
        \<lparr>presentThreshold = 0, deadlineThreshold = 0, startThreshold = 0\<rparr>,
      mRefreshRate = Fps_default,
      mJankType_df = JankType_None, mFramePresentMetadata_df = UnknownPresent,
      mFrameReadyMetadata_df = UnknownFinish, mFrameStartMetadata = UnknownStart,
      mSurfaceFrames = []\<rparr>"

text \<open>
  The constructor's initialiser list: zero predictions and actuals and the thresholds; the
  list of surface frames starts empty.
\<close>

definition DisplayFrame_new :: "JankClassificationThresholds \<Rightarrow> DisplayFrame" where
  "DisplayFrame_new thresholds =
     DisplayFrame_defaults
       \<lparr>mSurfaceFlingerPredictions := \<lparr>startTime = 0, endTime = 0, presentTime = 0\<rparr>,
        mSurfaceFlingerActuals := \<lparr>startTime = 0, endTime = 0, presentTime = 0\<rparr>,
        mJankClassificationThresholds_df := thresholds\<rparr>"

definition DisplayFrame_addSurfaceFrame :: "SurfaceFrame \<Rightarrow> DisplayFrame \<Rightarrow> DisplayFrame" where
  "DisplayFrame_addSurfaceFrame surfaceFrame d =
     d\<lparr>mSurfaceFrames := mSurfaceFrames d @ [surfaceFrame]\<rparr>"

definition onSfWakeUp ::
    "int \<Rightarrow> Fps \<Rightarrow> TimelineItem option \<Rightarrow> nsecs_t \<Rightarrow> DisplayFrame \<Rightarrow> DisplayFrame" where
  "onSfWakeUp token refreshRate' predictions' wakeUpTime d =
     (let d1 = d\<lparr>mToken_df := token, mRefreshRate := refreshRate'\<rparr>;
          d2 = (case predictions' of
                  None \<Rightarrow> d1\<lparr>mPredictionState_df := Expired\<rparr>
                | Some p \<Rightarrow> d1\<lparr>mPredictionState_df := Valid, mSurfaceFlingerPredictions := p\<rparr>)
      in d2\<lparr>mSurfaceFlingerActuals := (mSurfaceFlingerActuals d2)\<lparr>startTime := wakeUpTime\<rparr>\<rparr>)"

definition setActualEndTime :: "nsecs_t \<Rightarrow> DisplayFrame \<Rightarrow> DisplayFrame" where
  "setActualEndTime actualEndTime d =
     d\<lparr>mSurfaceFlingerActuals := (mSurfaceFlingerActuals d)\<lparr>endTime := actualEndTime\<rparr>\<rparr>"

text \<open>The loop over \<^verbatim>\<open>mSurfaceFrames\<close> at the end of \<^verbatim>\<open>DisplayFrame::onPresent\<close>.\<close>

fun onPresent_each ::
    "nsecs_t \<Rightarrow> 32 word \<Rightarrow> Fps \<Rightarrow> nsecs_t \<Rightarrow> nsecs_t \<Rightarrow> SurfaceFrame list
     \<Rightarrow> error + (SurfaceFrame list \<times> JankyFramesInfo list)" where
  "onPresent_each signalTime j r dd dv [] = Inr ([], [])"
| "onPresent_each signalTime j r dd dv (sf # sfs) =
     (case SurfaceFrame_onPresent signalTime j r dd dv sf of
        Inl e \<Rightarrow> Inl e
      | Inr (sf', out) \<Rightarrow>
          (case onPresent_each signalTime j r dd dv sfs of
             Inl e \<Rightarrow> Inl e
           | Inr (sfs', outs) \<Rightarrow> Inr (sf' # sfs', out @ outs)))"

definition DisplayFrame_onPresent ::
    "nsecs_t \<Rightarrow> DisplayFrame \<Rightarrow> error + (DisplayFrame \<times> JankyFramesInfo list)" where
  "DisplayFrame_onPresent signalTime d =
     (let d1 = d\<lparr>mSurfaceFlingerActuals :=
                  (mSurfaceFlingerActuals d)\<lparr>presentTime := signalTime\<rparr>\<rparr>;
          presentDelta = presentTime (mSurfaceFlingerActuals d1)
                         - presentTime (mSurfaceFlingerPredictions d1);
          deadlineDelta = endTime (mSurfaceFlingerActuals d1)
                          - endTime (mSurfaceFlingerPredictions d1);
          th = mJankClassificationThresholds_df d1
      in case rem_nsecs \<bar>presentDelta\<bar> (getPeriodNsecs (mRefreshRate d1)) of
           Inl e \<Rightarrow> Inl e
         | Inr deltaToVsync \<Rightarrow>
             let d2 = d1\<lparr>mFramePresentMetadata_df :=
                          (if \<bar>presentDelta\<bar> > presentThreshold th
                           then (if presentDelta > 0 then LatePresent else EarlyPresent)
                           else OnTimePresent)\<rparr>;
                 d3 = d2\<lparr>mFrameReadyMetadata_df :=
                          (if endTime (mSurfaceFlingerActuals d2)
                              - endTime (mSurfaceFlingerPredictions d2) > deadlineThreshold th
                           then LateFinish else OnTimeFinish)\<rparr>;
                 d4 = (if \<bar>startTime (mSurfaceFlingerActuals d3)
                           - startTime (mSurfaceFlingerPredictions d3)\<bar> > startThreshold th
                       then d3\<lparr>mFrameStartMetadata :=
                                 (if startTime (mSurfaceFlingerActuals d3)
                                     > startTime (mSurfaceFlingerPredictions d3)
                                  then LateStart else EarlyStart)\<rparr>
                       else d3);
                 d5 =
                   (if mFramePresentMetadata_df d4 \<noteq> OnTimePresent then
                      (if mFramePresentMetadata_df d4 = EarlyPresent then
                         (if mFrameReadyMetadata_df d4 = OnTimeFinish then
                            (if deltaToVsync < presentThreshold th \<or>
                                deltaToVsync \<ge>
                                  getPeriodNsecs (mRefreshRate d4) - presentThreshold th
                             then d4\<lparr>mJankType_df := SurfaceFlingerScheduling\<rparr>
                             else d4\<lparr>mJankType_df := PredictionError\<rparr>)
                          else if mFrameReadyMetadata_df d4 = LateFinish
                          then d4\<lparr>mJankType_df := SurfaceFlingerScheduling\<rparr>
                          else d4\<lparr>mJankType_df := JankType_Unknown\<rparr>)
                       else if mFramePresentMetadata_df d4 = LatePresent then
                         (if mFrameReadyMetadata_df d4 = OnTimeFinish then
                            (if deltaToVsync < presentThreshold th \<or>
                                deltaToVsync \<ge>
                                  getPeriodNsecs (mRefreshRate d4) - presentThreshold th
                             then d4\<lparr>mJankType_df := DisplayHAL\<rparr>
                             else d4\<lparr>mJankType_df := PredictionError\<rparr>)
                          else if mFrameReadyMetadata_df d4 = LateFinish
                          then d4\<lparr>mJankType_df := SurfaceFlingerCpuDeadlineMissed\<rparr>
                          else d4\<lparr>mJankType_df := JankType_Unknown\<rparr>)
                       else d4\<lparr>mJankType_df := JankType_Unknown\<rparr>)
                    else d4)
             in case onPresent_each signalTime (mJankType_df d5) (mRefreshRate d5)
                       deadlineDelta deltaToVsync (mSurfaceFrames d5) of
                  Inl e \<Rightarrow> Inl e
                | Inr (sfs', outs) \<Rightarrow> Inr (d5\<lparr>mSurfaceFrames := sfs'\<rparr>, outs))"

section \<open>Base time of a dump\<close>

definition nsecs_max :: nsecs_t where
  "nsecs_max = 2 ^ 63 - 1"

definition getMinTime :: "PredictionState \<Rightarrow> TimelineItem \<Rightarrow> TimelineItem \<Rightarrow> nsecs_t" where
  "getMinTime predictionState predictions' actuals =
     (let minTime0 = nsecs_max;
          minTime1 = (if predictionState = Valid
                      then min minTime0 (startTime predictions') else minTime0);
          minTime2 = (if startTime actuals \<noteq> 0
                      then min minTime1 (startTime actuals) else minTime1);
          minTime3 = (if endTime actuals \<noteq> 0
                      then min minTime2 (endTime actuals) else minTime2);
          minTime4 = (if presentTime actuals \<noteq> 0
                      then min minTime3 (endTime actuals) else minTime3)
      in minTime4)"

definition SurfaceFrame_getBaseTime :: "SurfaceFrame \<Rightarrow> nsecs_t" where
  "SurfaceFrame_getBaseTime sf =
     getMinTime (mPredictionState sf) (mPredictions sf) (mActuals sf)"

definition DisplayFrame_getBaseTime :: "DisplayFrame \<Rightarrow> nsecs_t" where
  "DisplayFrame_getBaseTime d =
     fold (\<lambda>surfaceFrame baseTime.
             let surfaceFrameBaseTime = SurfaceFrame_getBaseTime surfaceFrame
             in if surfaceFrameBaseTime \<noteq> 0 then min baseTime surfaceFrameBaseTime
                else baseTime)
          (mSurfaceFrames d)
          (getMinTime (mPredictionState_df d) (mSurfaceFlingerPredictions d)
             (mSurfaceFlingerActuals d))"


section \<open>FrameTimeline\<close>

text \<open>
  Display frames are shared objects: the current frame, the pending queue and the history
  hold pointers to the same \<^verbatim>\<open>DisplayFrame\<close>, and classifying a pending frame changes
  the object the history shows. The model keeps them in a store \<open>frames\<close> from addresses to
  records; \<open>nextFrame\<close> is the first unused address, which \<^verbatim>\<open>make_shared\<close> takes.

  A present fence is a shared \<^verbatim>\<open>FenceTime\<close> whose state changes outside this code. A
  queue entry holds the fence's address (or no fence), and each operation that polls fences
  is given their state at that moment.

  \<open>mTimeStats\<close> collects the observations handed to the metrics collaborator and
  \<open>mTraced\<close> the addresses of the display frames handed to \<^verbatim>\<open>trace\<close>, both in call order;
  the content of the trace packets is not modelled.
\<close>

record FenceTime =
  isValid :: bool
  getSignalTime :: nsecs_t

text \<open>
  Modelled from the spec: the two sentinel signal times are declared with \<^verbatim>\<open>Fence\<close>,
  outside the sources at hand. Section 4.4 of the spec tells a signal time that is not yet
  available from one that is; the code tells both from an invalid one. The sentinels are
  \<open>- 1\<close> for invalid and the largest 64-bit value for pending, neither a reading of
  the clock.
\<close>

definition SIGNAL_TIME_INVALID :: nsecs_t where
  "SIGNAL_TIME_INVALID = - 1"

definition SIGNAL_TIME_PENDING :: nsecs_t where
  "SIGNAL_TIME_PENDING = 2 ^ 63 - 1"

record FrameTimeline =
  frames :: "nat \<Rightarrow> DisplayFrame"
  nextFrame :: nat
  mMaxDisplayFrames :: "32 word"
  mDisplayFrames :: "nat list"
  mPendingPresentFences :: "(nat option \<times> nat) list"
  mCurrentDisplayFrame :: nat
  mTokenManager :: TokenManager
  mJankClassificationThresholds_ft :: JankClassificationThresholds
  mTimeStats :: "JankyFramesInfo list"
  mTraced :: "nat list"

text \<open>
  The constructor; \<^verbatim>\<open>kDefaultMaxDisplayFrames\<close> comes from the absent header and is a
  parameter, as is the starting state of the token manager.
\<close>

definition FrameTimeline_new ::
    "32 word \<Rightarrow> TokenManager \<Rightarrow> JankClassificationThresholds \<Rightarrow> FrameTimeline" where
  "FrameTimeline_new kDefaultMaxDisplayFrames tm thresholds =
     \<lparr>frames = (\<lambda>a. DisplayFrame_new thresholds), nextFrame = 1,
      mMaxDisplayFrames = kDefaultMaxDisplayFrames, mDisplayFrames = [],
      mPendingPresentFences = [], mCurrentDisplayFrame = 0, mTokenManager = tm,
      mJankClassificationThresholds_ft = thresholds, mTimeStats = [], mTraced = []\<rparr>"

definition addSurfaceFrame :: "SurfaceFrame \<Rightarrow> FrameTimeline \<Rightarrow> FrameTimeline" where
  "addSurfaceFrame surfaceFrame ft =
     ft\<lparr>frames := (frames ft)
          (mCurrentDisplayFrame ft :=
             DisplayFrame_addSurfaceFrame surfaceFrame (frames ft (mCurrentDisplayFrame ft)))\<rparr>"

definition setSfWakeUp :: "int \<Rightarrow> nsecs_t \<Rightarrow> Fps \<Rightarrow> FrameTimeline \<Rightarrow> FrameTimeline" where
  "setSfWakeUp token wakeUpTime refreshRate' ft =
     ft\<lparr>frames := (frames ft)
          (mCurrentDisplayFrame ft :=
             onSfWakeUp token refreshRate'
               (getPredictionsForToken (mTokenManager ft) token) wakeUpTime
               (frames ft (mCurrentDisplayFrame ft)))\<rparr>"

text \<open>
  \<^verbatim>\<open>flushPendingPresentFences\<close>. The loop visits the queue from the front; an entry whose
  valid fence is still pending is skipped by \<^verbatim>\<open>continue\<close> and stays, every other entry is
  erased, after \<^verbatim>\<open>onPresent\<close> and \<^verbatim>\<open>trace\<close> when it has a signal time. \<open>flush_loop\<close>
  returns the entries that stay.
\<close>

fun flush_loop ::
    "(nat \<Rightarrow> FenceTime) \<Rightarrow> (nat option \<times> nat) list \<Rightarrow> FrameTimeline
     \<Rightarrow> error + ((nat option \<times> nat) list \<times> FrameTimeline)" where
  "flush_loop fences [] ft = Inr ([], ft)"
| "flush_loop fences ((fence, displayFrame) # rest) ft =
     (let usable = (case fence of None \<Rightarrow> False | Some f \<Rightarrow> isValid (fences f));
          signalTime = (case fence of
                          None \<Rightarrow> SIGNAL_TIME_INVALID
                        | Some f \<Rightarrow> if isValid (fences f) then getSignalTime (fences f)
                                    else SIGNAL_TIME_INVALID)
      in if usable \<and> signalTime = SIGNAL_TIME_PENDING then
           (case flush_loop fences rest ft of
              Inl e \<Rightarrow> Inl e
            | Inr (kept, ft') \<Rightarrow> Inr ((fence, displayFrame) # kept, ft'))
         else if signalTime \<noteq> SIGNAL_TIME_INVALID then
           (case DisplayFrame_onPresent signalTime (frames ft displayFrame) of
              Inl e \<Rightarrow> Inl e
            | Inr (d', outs) \<Rightarrow>
                flush_loop fences rest
                  (ft\<lparr>frames := (frames ft)(displayFrame := d'),
                      mTimeStats := mTimeStats ft @ outs,
                      mTraced := mTraced ft @ [displayFrame]\<rparr>))
         else flush_loop fences rest ft)"

definition flushPendingPresentFences ::
    "(nat \<Rightarrow> FenceTime) \<Rightarrow> FrameTimeline \<Rightarrow> error + FrameTimeline" where
  "flushPendingPresentFences fences ft =
     (case flush_loop fences (mPendingPresentFences ft) ft of
        Inl e \<Rightarrow> Inl e
      | Inr (kept, ft') \<Rightarrow> Inr (ft'\<lparr>mPendingPresentFences := kept\<rparr>))"

text \<open>
  The loop of \<^verbatim>\<open>finalizeCurrentDisplayFrame\<close>:
  \<^verbatim>\<open>while (mDisplayFrames.size() >= mMaxDisplayFrames) mDisplayFrames.pop_front();\<close>
\<close>

fun pop_older :: "nat \<Rightarrow> 'a list \<Rightarrow> error + 'a list" where
  "pop_older maxDisplayFrames [] =
     (if 0 \<ge> maxDisplayFrames then Inl PopFrontOnEmpty else Inr [])"
| "pop_older maxDisplayFrames (x # xs) =
     (if length (x # xs) \<ge> maxDisplayFrames then pop_older maxDisplayFrames xs
      else Inr (x # xs))"

definition finalizeCurrentDisplayFrame :: "FrameTimeline \<Rightarrow> error + FrameTimeline" where
  "finalizeCurrentDisplayFrame ft =
     (case pop_older (unat (mMaxDisplayFrames ft)) (mDisplayFrames ft) of
        Inl e \<Rightarrow> Inl e
      | Inr older \<Rightarrow>
          Inr (ft\<lparr>mDisplayFrames := older @ [mCurrentDisplayFrame ft],
                  mCurrentDisplayFrame := nextFrame ft,
                  frames := (frames ft)
                    (nextFrame ft := DisplayFrame_new (mJankClassificationThresholds_ft ft)),
                  nextFrame := nextFrame ft + 1\<rparr>))"

definition setSfPresent ::
    "nsecs_t \<Rightarrow> nat option \<Rightarrow> (nat \<Rightarrow> FenceTime) \<Rightarrow> FrameTimeline \<Rightarrow> error + FrameTimeline" where
  "setSfPresent sfPresentTime presentFence fences ft =
     (let ft1 = ft\<lparr>frames := (frames ft)
                      (mCurrentDisplayFrame ft :=
                         setActualEndTime sfPresentTime (frames ft (mCurrentDisplayFrame ft)))\<rparr>;
          ft2 = ft1\<lparr>mPendingPresentFences :=
                      mPendingPresentFences ft1 @ [(presentFence, mCurrentDisplayFrame ft1)]\<rparr>
      in case flushPendingPresentFences fences ft2 of
           Inl e \<Rightarrow> Inl e
         | Inr ft3 \<Rightarrow> finalizeCurrentDisplayFrame ft3)"

definition setMaxDisplayFrames :: "32 word \<Rightarrow> FrameTimeline \<Rightarrow> FrameTimeline" where
  "setMaxDisplayFrames size' ft =
     ft\<lparr>mDisplayFrames := [], mPendingPresentFences := [], mMaxDisplayFrames := size'\<rparr>"

text \<open>
  The base time \<^verbatim>\<open>dumpAll\<close> and \<^verbatim>\<open>dumpJank\<close> compute before they print and hand to
  every \<^verbatim>\<open>dump\<close> call.
\<close>

definition dump_baseTime :: "FrameTimeline \<Rightarrow> nsecs_t" where
  "dump_baseTime ft =
     (case mDisplayFrames ft of
        [] \<Rightarrow> 0
      | first # _ \<Rightarrow> DisplayFrame_getBaseTime (frames ft first))"

text \<open>
  A caller's view of the ingest interface: one call after the other, stopping at the first
  one that does not return.
\<close>

datatype call =
    AddSurfaceFrame SurfaceFrame
  | SetSfWakeUp int nsecs_t Fps
  | SetSfPresent nsecs_t "nat option" "nat \<Rightarrow> FenceTime"
  | SetMaxDisplayFrames "32 word"
  | GenerateToken TimelineItem nsecs_t nsecs_t

fun run_call :: "nsecs_t \<Rightarrow> call \<Rightarrow> FrameTimeline \<Rightarrow> error + FrameTimeline" where
  "run_call W (AddSurfaceFrame sf) ft = Inr (addSurfaceFrame sf ft)"
| "run_call W (SetSfWakeUp token wakeUpTime r) ft = Inr (setSfWakeUp token wakeUpTime r ft)"
| "run_call W (SetSfPresent t fence fences) ft = setSfPresent t fence fences ft"
| "run_call W (SetMaxDisplayFrames n) ft = Inr (setMaxDisplayFrames n ft)"
| "run_call W (GenerateToken p now1 now2) ft =
     Inr (ft\<lparr>mTokenManager :=
               snd (generateTokenForPredictions W now1 now2 p (mTokenManager ft))\<rparr>)"

fun run_calls :: "nsecs_t \<Rightarrow> call list \<Rightarrow> FrameTimeline \<Rightarrow> error + FrameTimeline" where
  "run_calls W [] ft = Inr ft"
| "run_calls W (c # cs) ft =
     (case run_call W c ft of Inl e \<Rightarrow> Inl e | Inr ft' \<Rightarrow> run_calls W cs ft')"


section \<open>Dump\<close>

text \<open>
  The dump as data: what is printed, before it is laid out as text. A cell of a table is the
  count of nanoseconds that \<^verbatim>\<open>dumpTable\<close> hands to the conversion to milliseconds and to
  \<^verbatim>\<open>%10.2f\<close>; \<open>None\<close> is the cell \<^verbatim>\<open>N/A\<close>, and for \<open>expected_times\<close> the row
  \<^verbatim>\<open>Expected\<close> that is printed only for valid predictions. The headings, the indentation and
  the layout of a number are left out.
\<close>

record dumped_table =
  expected_times :: "(nsecs_t \<times> nsecs_t \<times> nsecs_t) option"
  actual_start :: "nsecs_t option"
  actual_end :: "nsecs_t option"
  actual_present :: "nsecs_t option"

text \<open>
  \<^verbatim>\<open>dumpTable\<close>. The expected times and the actual end time are printed less the base time;
  the actual start and present times are printed less the base time but not below zero
  (\<^verbatim>\<open>std::max<nsecs_t>(0, ...)\<close>).
\<close>

definition dumpTable ::
    "TimelineItem \<Rightarrow> TimelineItem \<Rightarrow> PredictionState \<Rightarrow> nsecs_t \<Rightarrow> dumped_table" where
  "dumpTable predictions' actuals predictionState baseTime =
     \<lparr>expected_times =
        (if predictionState = Valid
         then Some (startTime predictions' - baseTime, endTime predictions' - baseTime,
                    presentTime predictions' - baseTime)
         else None),
      actual_start =
        (if startTime actuals = 0 then None
         else Some (max 0 (startTime actuals - baseTime))),
      actual_end =
        (if endTime actuals \<le> 0 then None else Some (endTime actuals - baseTime)),
      actual_present =
        (if presentTime actuals = 0 then None
         else Some (max 0 (presentTime actuals - baseTime)))\<rparr>"

text \<open>
  \<^verbatim>\<open>jankTypeBitmaskToString\<close>. \<open>jank_names\<close> is the chain of tests, each clearing the bit it
  finds; a bit that is left over aborts (\<^verbatim>\<open>LOG_ALWAYS_FATAL_IF\<close>).
\<close>

definition jank_names :: "32 word \<Rightarrow> 32 word \<times> string list" where
  "jank_names jankType' =
     fold (\<lambda>(bit, name') (j, janks).
             if j AND bit \<noteq> 0 then (j AND NOT bit, janks @ [name']) else (j, janks))
       [(DisplayHAL, ''Display HAL''),
        (SurfaceFlingerCpuDeadlineMissed, ''SurfaceFlinger CPU Deadline Missed''),
        (SurfaceFlingerGpuDeadlineMissed, ''SurfaceFlinger GPU Deadline Missed''),
        (AppDeadlineMissed, ''App Deadline Missed''),
        (PredictionError, ''Prediction Error''),
        (SurfaceFlingerScheduling, ''SurfaceFlinger Scheduling''),
        (BufferStuffing, ''Buffer Stuffing''),
        (JankType_Unknown, ''Unknown jank'')]
       (jankType', [])"

definition jankTypeBitmaskToString :: "32 word \<Rightarrow> error + string" where
  "jankTypeBitmaskToString jankType' =
     (if jankType' = JankType_None then Inr ''None''
      else case jank_names jankType' of
             (rest, janks) \<Rightarrow>
               if rest \<noteq> 0 then Inl FatalAbort
               else Inr (foldl (\<lambda>l r. if l = [] then r else l @ '', '' @ r) [] janks))"

text \<open>
  \<^verbatim>\<open>SurfaceFrame::dump\<close>. \<open>ds_mark\<close> is the mark \<^verbatim>\<open>[*]\<close> of a janky record, \<open>ds_rate\<close> the
  render rate whose integer value is printed (0 without one), \<open>ds_present_delta\<close> the line
  printed only for valid predictions.
\<close>

record dumped_surface =
  ds_layer :: string
  ds_mark :: bool
  ds_token :: int
  ds_pid :: int
  ds_rate :: "Fps option"
  ds_present_state :: PresentState
  ds_prediction_state :: PredictionState
  ds_jank :: string
  ds_present_metadata :: FramePresentMetadata
  ds_finish_metadata :: FrameReadyMetadata
  ds_latch :: nsecs_t
  ds_present_delta :: "nsecs_t option"
  ds_table :: dumped_table

definition SurfaceFrame_dump :: "SurfaceFrame \<Rightarrow> nsecs_t \<Rightarrow> error + dumped_surface" where
  "SurfaceFrame_dump sf baseTime =
     (case jankTypeBitmaskToString (mJankType sf) of
        Inl e \<Rightarrow> Inl e
      | Inr jank \<Rightarrow>
          Inr \<lparr>ds_layer = mDebugName sf,
               ds_mark = (mJankType sf \<noteq> JankType_None),
               ds_token = mToken sf,
               ds_pid = mOwnerPid sf,
               ds_rate = mRenderRate sf,
               ds_present_state = mPresentState sf,
               ds_prediction_state = mPredictionState sf,
               ds_jank = jank,
               ds_present_metadata = mFramePresentMetadata sf,
               ds_finish_metadata = mFrameReadyMetadata sf,
               ds_latch = max 0 (mLastLatchTime sf - baseTime),
               ds_present_delta =
                 (if mPredictionState sf = Valid
                  then Some \<bar>presentTime (mActuals sf) - presentTime (mPredictions sf)\<bar>
                  else None),
               ds_table = dumpTable (mPredictions sf) (mActuals sf) (mPredictionState sf)
                            baseTime\<rparr>)"

fun dump_each :: "nsecs_t \<Rightarrow> SurfaceFrame list \<Rightarrow> error + dumped_surface list" where
  "dump_each baseTime [] = Inr []"
| "dump_each baseTime (sf # sfs) =
     (case SurfaceFrame_dump sf baseTime of
        Inl e \<Rightarrow> Inl e
      | Inr s \<Rightarrow>
          (case dump_each baseTime sfs of
             Inl e \<Rightarrow> Inl e
           | Inr ss \<Rightarrow> Inr (s # ss)))"

text \<open>
  \<^verbatim>\<open>DisplayFrame::dump\<close>, which \<^verbatim>\<open>DisplayFrame::dumpAll\<close> calls and nothing else. The
  remainder by the refresh period has no value when the period is zero.
\<close>

record dumped_display =
  dd_mark :: bool
  dd_prediction_state :: PredictionState
  dd_jank :: string
  dd_present_metadata :: FramePresentMetadata
  dd_finish_metadata :: FrameReadyMetadata
  dd_start_metadata :: FrameStartMetadata
  dd_vsync_period :: nsecs_t
  dd_present_delta :: nsecs_t
  dd_delta_to_vsync :: nsecs_t
  dd_table :: dumped_table
  dd_surfaces :: "dumped_surface list"

definition DisplayFrame_dump :: "DisplayFrame \<Rightarrow> nsecs_t \<Rightarrow> error + dumped_display" where
  "DisplayFrame_dump d baseTime =
     (case jankTypeBitmaskToString (mJankType_df d) of
        Inl e \<Rightarrow> Inl e
      | Inr jank \<Rightarrow>
          let presentDelta = presentTime (mSurfaceFlingerActuals d)
                             - presentTime (mSurfaceFlingerPredictions d)
          in case rem_nsecs \<bar>presentDelta\<bar> (getPeriodNsecs (mRefreshRate d)) of
               Inl e \<Rightarrow> Inl e
             | Inr deltaToVsync \<Rightarrow>
                 (case dump_each baseTime (mSurfaceFrames d) of
                    Inl e \<Rightarrow> Inl e
                  | Inr surfaces \<Rightarrow>
                      Inr \<lparr>dd_mark = (mJankType_df d \<noteq> JankType_None),
                           dd_prediction_state = mPredictionState_df d,
                           dd_jank = jank,
                           dd_present_metadata = mFramePresentMetadata_df d,
                           dd_finish_metadata = mFrameReadyMetadata_df d,
                           dd_start_metadata = mFrameStartMetadata d,
                           dd_vsync_period = getPeriodNsecs (mRefreshRate d),
                           dd_present_delta = \<bar>presentDelta\<bar>,
                           dd_delta_to_vsync = deltaToVsync,
                           dd_table = dumpTable (mSurfaceFlingerPredictions d)
                                        (mSurfaceFlingerActuals d) (mPredictionState_df d)
                                        baseTime,
                           dd_surfaces = surfaces\<rparr>))"

text \<open>
  \<^verbatim>\<open>DisplayFrame::dumpJank\<close>: nothing for a display frame without jank all of whose
  surface frames report the jank type \<^verbatim>\<open>JankType::None\<close>, the dump otherwise. The test
  compares the \<^verbatim>\<open>std::optional\<close> that \<^verbatim>\<open>getJankType\<close> returns with
  \<^verbatim>\<open>JankType::None\<close>, so a surface frame without a present time, which reports no jank
  type, counts as janky.
\<close>

definition DisplayFrame_dumpJank ::
    "DisplayFrame \<Rightarrow> nsecs_t \<Rightarrow> error + dumped_display option" where
  "DisplayFrame_dumpJank d baseTime =
     (if mJankType_df d = JankType_None \<and>
         \<not> list_ex (\<lambda>surfaceFrame. getJankType surfaceFrame \<noteq> Some JankType_None)
               (mSurfaceFrames d)
      then Inr None
      else case DisplayFrame_dump d baseTime of
             Inl e \<Rightarrow> Inl e
           | Inr dd \<Rightarrow> Inr (Some dd))"

text \<open>
  \<^verbatim>\<open>FrameTimeline::dumpAll\<close> and \<^verbatim>\<open>FrameTimeline::dumpJank\<close>: the base time is computed
  once and every display frame of the history is dumped with it, in order. \<^verbatim>\<open>dumpJank\<close>
  prints the index of each display frame it dumps.
\<close>

fun dumpAll_each :: "FrameTimeline \<Rightarrow> nsecs_t \<Rightarrow> nat list \<Rightarrow> error + dumped_display list" where
  "dumpAll_each ft baseTime [] = Inr []"
| "dumpAll_each ft baseTime (a # as) =
     (case DisplayFrame_dump (frames ft a) baseTime of
        Inl e \<Rightarrow> Inl e
      | Inr dd \<Rightarrow>
          (case dumpAll_each ft baseTime as of
             Inl e \<Rightarrow> Inl e
           | Inr dds \<Rightarrow> Inr (dd # dds)))"

definition dumpAll :: "FrameTimeline \<Rightarrow> error + dumped_display list" where
  "dumpAll ft = dumpAll_each ft (dump_baseTime ft) (mDisplayFrames ft)"

fun dumpJank_each ::
    "FrameTimeline \<Rightarrow> nsecs_t \<Rightarrow> nat \<Rightarrow> nat list \<Rightarrow> error + (nat \<times> dumped_display) list" where
  "dumpJank_each ft baseTime i [] = Inr []"
| "dumpJank_each ft baseTime i (a # as) =
     (case DisplayFrame_dumpJank (frames ft a) baseTime of
        Inl e \<Rightarrow> Inl e
      | Inr r \<Rightarrow>
          (case dumpJank_each ft baseTime (Suc i) as of
             Inl e \<Rightarrow> Inl e
           | Inr rs \<Rightarrow> Inr ((case r of None \<Rightarrow> [] | Some dd \<Rightarrow> [(i, dd)]) @ rs)))"

definition dumpJank :: "FrameTimeline \<Rightarrow> error + (nat \<times> dumped_display) list" where
  "dumpJank ft = dumpJank_each ft (dump_baseTime ft) 0 (mDisplayFrames ft)"


section \<open>Notions used to state the properties\<close>

text \<open>
  The state of a queue entry's fence at a poll: still pending (the entry is skipped), or
  resolved with a signal time (the entry's frame is classified). Any other entry (no fence,
  an invalid fence) is erased without classification.
\<close>

fun still_pending :: "(nat \<Rightarrow> FenceTime) \<Rightarrow> nat option \<times> nat \<Rightarrow> bool" where
  "still_pending fences (None, d) = False"
| "still_pending fences (Some f, d) =
     (isValid (fences f) \<and> getSignalTime (fences f) = SIGNAL_TIME_PENDING)"

fun resolved :: "(nat \<Rightarrow> FenceTime) \<Rightarrow> nat option \<times> nat \<Rightarrow> bool" where
  "resolved fences (None, d) = False"
| "resolved fences (Some f, d) =
     (isValid (fences f) \<and> getSignalTime (fences f) \<noteq> SIGNAL_TIME_PENDING
      \<and> getSignalTime (fences f) \<noteq> SIGNAL_TIME_INVALID)"

text \<open>
  The timestamps of one record that are set, as the spec counts them: the predicted triple
  when the predictions are valid and the actual triple, zero standing for unset. Below them,
  those of a display frame with its surface frames and those of the whole history, which is
  what a dump prints.
\<close>

definition set_times :: "PredictionState \<Rightarrow> TimelineItem \<Rightarrow> TimelineItem \<Rightarrow> nsecs_t list" where
  "set_times ps p a =
     (if ps = Valid then filter (\<lambda>t. t \<noteq> 0) [startTime p, endTime p, presentTime p] else [])
     @ filter (\<lambda>t. t \<noteq> 0) [startTime a, endTime a, presentTime a]"

definition DisplayFrame_set_times :: "DisplayFrame \<Rightarrow> nsecs_t list" where
  "DisplayFrame_set_times d =
     set_times (mPredictionState_df d) (mSurfaceFlingerPredictions d) (mSurfaceFlingerActuals d)
     @ concat (map (\<lambda>sf. set_times (mPredictionState sf) (mPredictions sf) (mActuals sf))
                 (mSurfaceFrames d))"

definition dump_set_times :: "FrameTimeline \<Rightarrow> nsecs_t list" where
  "dump_set_times ft = concat (map (\<lambda>a. DisplayFrame_set_times (frames ft a)) (mDisplayFrames ft))"

text \<open>
  The timestamps of one record among which its base time is the smallest: the largest
  64-bit time, the predicted start when the predictions are valid, and the actual start, end
  and present times that are not zero. \<open>consulted_times_df\<close> collects them over a
  display frame, leaving out the surface frames whose own minimum is zero, as
  \<^verbatim>\<open>DisplayFrame::getBaseTime\<close> does. \<open>end_before_present\<close> is the part of the
  ordering invariant of a timing triple (section 3 of the spec) that the comparison relies
  on: where the actual present time is set, the actual end time is set and not after it.
\<close>

definition consulted_times :: "PredictionState \<Rightarrow> TimelineItem \<Rightarrow> TimelineItem \<Rightarrow> nsecs_t list" where
  "consulted_times ps p a =
     nsecs_max # (if ps = Valid then [startTime p] else [])
     @ filter (\<lambda>t. t \<noteq> 0) [startTime a, endTime a, presentTime a]"

definition consulted_times_df :: "DisplayFrame \<Rightarrow> nsecs_t list" where
  "consulted_times_df d =
     consulted_times (mPredictionState_df d) (mSurfaceFlingerPredictions d)
       (mSurfaceFlingerActuals d)
     @ concat (map (\<lambda>sf. let ts = consulted_times (mPredictionState sf) (mPredictions sf)
                                     (mActuals sf)
                          in if Min (set ts) \<noteq> 0 then ts else [])
                 (mSurfaceFrames d))"

definition end_before_present :: "TimelineItem \<Rightarrow> bool" where
  "end_before_present a \<longleftrightarrow>
     (presentTime a \<noteq> 0 \<longrightarrow> endTime a \<noteq> 0 \<and> endTime a \<le> presentTime a)"

text \<open>
  The invariant of the timeline's addresses: every address in use is allocated, and the
  current display frame is neither queued nor in the history.
\<close>

definition ft_inv :: "FrameTimeline \<Rightarrow> bool" where
  "ft_inv ft \<longleftrightarrow>
     mCurrentDisplayFrame ft < nextFrame ft \<and>
     list_all (\<lambda>(fence, a). a < nextFrame ft \<and> a \<noteq> mCurrentDisplayFrame ft)
       (mPendingPresentFences ft) \<and>
     list_all (\<lambda>a. a < nextFrame ft \<and> a \<noteq> mCurrentDisplayFrame ft) (mDisplayFrames ft)"

text \<open>\<open>n\<close> finalizations in a row, and the addresses of the frames they finalize.\<close>

fun finalize_times :: "nat \<Rightarrow> FrameTimeline \<Rightarrow> error + FrameTimeline" where
  "finalize_times 0 ft = Inr ft"
| "finalize_times (Suc n) ft =
     (case finalizeCurrentDisplayFrame ft of
        Inl e \<Rightarrow> Inl e
      | Inr ft' \<Rightarrow> finalize_times n ft')"

fun finalized :: "nat \<Rightarrow> FrameTimeline \<Rightarrow> nat list" where
  "finalized 0 ft = []"
| "finalized (Suc n) ft = mCurrentDisplayFrame ft # [nextFrame ft ..< nextFrame ft + n]"


text \<open>
  A jank bitmask made of the eight causes that \<^verbatim>\<open>jankTypeBitmaskToString\<close> knows, and a
  display frame whose dump returns: its refresh period is not zero and its bitmask and those
  of its surface frames are made of known causes.
\<close>

definition known_causes :: "32 word \<Rightarrow> bool" where
  "known_causes j \<longleftrightarrow> j AND NOT 255 = 0"

definition dumpable :: "DisplayFrame \<Rightarrow> bool" where
  "dumpable d \<longleftrightarrow>
     getPeriodNsecs (mRefreshRate d) \<noteq> 0 \<and> known_causes (mJankType_df d) \<and>
     list_all (\<lambda>sf. known_causes (mJankType sf)) (mSurfaceFrames d)"

text \<open>Concrete inputs for the examples.\<close>

definition ex_thresholds :: JankClassificationThresholds where
  "ex_thresholds =
     \<lparr>presentThreshold = 2000000, deadlineThreshold = 2000000, startThreshold = 2000000\<rparr>"

definition ex_tm :: TokenManager where
  "ex_tm = \<lparr>mCurrentToken = 0, mPredictions_tm = []\<rparr>"

definition ex_predictions :: TimelineItem where
  "ex_predictions = \<lparr>startTime = 0, endTime = 10000000, presentTime = 16000000\<rparr>"

definition ex_fps60 :: Fps where
  "ex_fps60 = \<lparr>getPeriodNsecs = 16666666\<rparr>"

definition ex_timeline :: FrameTimeline where
  "ex_timeline = FrameTimeline_new 64 ex_tm ex_thresholds"

definition ex_surface :: SurfaceFrame where
  "ex_surface =
     SurfaceFrame_new 1 0 100 10000 ''layer'' ''layer#0'' Valid ex_predictions ex_thresholds"

definition ex_fences_pending :: "nat \<Rightarrow> FenceTime" where
  "ex_fences_pending f = \<lparr>isValid = True, getSignalTime = SIGNAL_TIME_PENDING\<rparr>"


definition ex_presented :: SurfaceFrame where
  "ex_presented = projr (setPresentState Presented 0 (setAcquireFenceTime 11000000 ex_surface))"

definition ex_dropped :: SurfaceFrame where
  "ex_dropped = projr (setPresentState Dropped 0 (setAcquireFenceTime 11000000 ex_surface))"

definition ex_display :: DisplayFrame where
  "ex_display =
     setActualEndTime 15000000
       (onSfWakeUp 1 ex_fps60 (Some ex_predictions) 0 (DisplayFrame_new ex_thresholds))"

definition ex_early_surface :: SurfaceFrame where
  "ex_early_surface =
     projr (setPresentState Presented 0
       (setActualStartTime 50000000
          (SurfaceFrame_new (- 1) 0 100 10000 ''layer'' ''layer#0'' PredictionState_None
             \<lparr>startTime = 0, endTime = 0, presentTime = 0\<rparr> ex_thresholds)))"

definition ex_fences_116 :: "nat \<Rightarrow> FenceTime" where
  "ex_fences_116 f = \<lparr>isValid = True, getSignalTime = 116000000\<rparr>"

definition ex_fences_216 :: "nat \<Rightarrow> FenceTime" where
  "ex_fences_216 f = \<lparr>isValid = True, getSignalTime = 216000000\<rparr>"

definition ex_one_frame :: "call list" where
  "ex_one_frame =
     [GenerateToken \<lparr>startTime = 100000000, endTime = 110000000, presentTime = 116000000\<rparr>
        90000000 90000000,
      SetSfWakeUp 0 101000000 ex_fps60,
      SetSfPresent 111000000 (Some 0) ex_fences_116]"

definition ex_two_frames :: "call list" where
  "ex_two_frames =
     ex_one_frame @
     [GenerateToken \<lparr>startTime = 200000000, endTime = 210000000, presentTime = 216000000\<rparr>
        190000000 190000000,
      AddSurfaceFrame ex_early_surface,
      SetSfWakeUp 1 201000000 ex_fps60,
      SetSfPresent 211000000 (Some 1) ex_fences_216]"

definition ex_first_pending :: "call list" where
  "ex_first_pending =
     [GenerateToken ex_predictions 0 0,
      SetSfWakeUp 0 0 ex_fps60,
      SetSfPresent 10000000 (Some 0) ex_fences_pending]"


definition ex_fences_signalled :: "nat \<Rightarrow> FenceTime" where
  "ex_fences_signalled f = \<lparr>isValid = True, getSignalTime = 16000000\<rparr>"

definition ex_pending_state :: FrameTimeline where
  "ex_pending_state = projr (run_calls 120000000 ex_first_pending ex_timeline)"


definition ex_resize_calls :: "call list" where
  "ex_resize_calls =
     [SetSfWakeUp 1 16000000 ex_fps60,
      SetSfPresent 26000000 (Some 1) ex_fences_signalled]"

definition ex_two_frame_state :: FrameTimeline where
  "ex_two_frame_state = projr (run_calls 120000000 ex_two_frames ex_timeline)"




definition ex_dump_surface :: SurfaceFrame where
  "ex_dump_surface =
     projr (setPresentState Presented 104000000
       (setAcquireFenceTime 105000000
          (setActualStartTime 96000000
             (SurfaceFrame_new 7 0 100 10000 ''layer'' ''layer#0'' Valid
                \<lparr>startTime = 95000000, endTime = 105000000, presentTime = 116000000\<rparr>
                ex_thresholds))))"

definition ex_fences_250 :: "nat \<Rightarrow> FenceTime" where
  "ex_fences_250 f =
     (if f = 0 then \<lparr>isValid = True, getSignalTime = 116000000\<rparr>
      else \<lparr>isValid = True, getSignalTime = 250000000\<rparr>)"

definition ex_dump_calls :: "call list" where
  "ex_dump_calls =
     [GenerateToken \<lparr>startTime = 100000000, endTime = 110000000, presentTime = 116000000\<rparr>
        90000000 90000000,
      AddSurfaceFrame ex_dump_surface,
      SetSfWakeUp 0 101000000 ex_fps60,
      SetSfPresent 111000000 (Some 0) ex_fences_116,
      GenerateToken \<lparr>startTime = 200000000, endTime = 210000000, presentTime = 216000000\<rparr>
        190000000 190000000,
      SetSfWakeUp 1 201000000 ex_fps60,
      SetSfPresent 211000000 (Some 1) ex_fences_250]"

definition ex_dump_state :: FrameTimeline where
  "ex_dump_state = projr (run_calls 120000000 ex_dump_calls ex_timeline)"


section \<open>TokenManager: retention window\<close>

lemma flushTokens_filter:
  "sorted (map (\<lambda>(k, e). timestamp e) m) \<Longrightarrow>
   flushTokens W f m = filter (\<lambda>(k, e). f - timestamp e < W) m"
proof (induction m)
  case Nil
  then show ?case by simp
next
  case (Cons a m)
  obtain k e where a: "a = (k, e)" by (cases a)
  show ?case
  proof (cases "f - timestamp e \<ge> W")
    case True
    with Cons a show ?thesis by simp
  next
    case False
    have "\<forall>x \<in> set m. (\<lambda>(k, e). f - timestamp e < W) x"
      using Cons.prems False a by (auto simp: )
    then have "filter (\<lambda>(k, e). f - timestamp e < W) m = m"
      by (simp add: filter_id_conv)
    with False a show ?thesis by simp
  qed
qed

lemma map_assign_append:
  "list_all (\<lambda>(k', v'). k' < k) m \<Longrightarrow> map_assign k v m = m @ [(k, v)]"
  by (induction m) auto

lemma map_of_filter_distinct:
  "distinct (map fst m) \<Longrightarrow>
   map_of (filter P m) k = (case map_of m k of Some e \<Rightarrow> if P (k, e) then Some e else None | None \<Rightarrow> None)"
proof (induction m)
  case Nil
  then show ?case by simp
next
  case (Cons a m)
  then show ?case
    by (cases a) (auto split: option.splits simp: map_of_eq_None_iff image_iff dest!: map_of_SomeD)
qed

lemma flushTokens_keeps_young:
  "distinct (map fst m) \<Longrightarrow> map_of m k = Some e \<Longrightarrow> f - timestamp e < W \<Longrightarrow>
   map_of (flushTokens W f m) k = Some e"
proof (induction m)
  case Nil
  then show ?case by simp
next
  case (Cons a m)
  obtain k' e' where a: "a = (k', e')" by (cases a)
  show ?case
  proof (cases "f - timestamp e' \<ge> W")
    case True
    then have "k \<noteq> k'" using Cons.prems a by auto
    with Cons a True show ?thesis by simp
  next
    case False
    with Cons a show ?thesis by simp
  qed
qed

lemma tm_inv_generate:
  assumes "tm_inv now tm" "now \<le> now1" "now1 \<le> now2"
  shows "tm_inv now2 (snd (generateTokenForPredictions W now1 now2 p tm))"
proof -
  let ?m = "mPredictions_tm tm"
  let ?c = "mCurrentToken tm"
  let ?e = "\<lparr>timestamp = now1, predictions = p\<rparr>"
  have below: "list_all (\<lambda>(k', v'). k' < ?c) ?m"
    using assms(1) by (auto simp: tm_inv_def list_all_iff)
  have m1: "map_assign ?c ?e ?m = ?m @ [(?c, ?e)]"
    using below by (rule map_assign_append)
  have s1: "sorted (map (\<lambda>(k, e). timestamp e) (?m @ [(?c, ?e)]))"
    using assms by (auto simp: tm_inv_def sorted_append list_all_iff)
  have fl: "flushTokens W now2 (?m @ [(?c, ?e)]) =
            filter (\<lambda>(k, e). now2 - timestamp e < W) (?m @ [(?c, ?e)])"
    using s1 by (rule flushTokens_filter)
  have k1: "sorted_wrt (<) (map fst (?m @ [(?c, ?e)]))"
    using assms(1) by (auto simp: tm_inv_def sorted_wrt_append list_all_iff)
  have "sorted_wrt (<) (map fst (filter (\<lambda>(k, e). now2 - timestamp e < W) (?m @ [(?c, ?e)])))"
    using k1 by (metis sorted_wrt_filter sorted_wrt_map)
  moreover have "sorted (map (\<lambda>(k, e). timestamp e) (filter (\<lambda>(k, e). now2 - timestamp e < W) (?m @ [(?c, ?e)])))"
    using s1 by (metis sorted_wrt_filter sorted_wrt_map)
  moreover have "list_all (\<lambda>(k, e). k < ?c + 1 \<and> timestamp e \<le> now2)
      (filter (\<lambda>(k, e). now2 - timestamp e < W) (?m @ [(?c, ?e)]))"
    using assms by (auto simp: tm_inv_def list_all_iff)
  ultimately show ?thesis
    by (simp add: generateTokenForPredictions_def Let_def m1 fl tm_inv_def del: filter_append)
qed

lemma generate_mPredictions_tm:
  assumes "tm_inv now tm" "now \<le> now1"
  shows "mPredictions_tm (snd (generateTokenForPredictions W now1 now2 p tm)) =
         filter (\<lambda>(k, e). now2 - timestamp e < W)
           (mPredictions_tm tm @ [(mCurrentToken tm, \<lparr>timestamp = now1, predictions = p\<rparr>)])"
proof -
  let ?m = "mPredictions_tm tm"
  let ?c = "mCurrentToken tm"
  let ?e = "\<lparr>timestamp = now1, predictions = p\<rparr>"
  have below: "list_all (\<lambda>(k', v'). k' < ?c) ?m"
    using assms(1) by (auto simp: tm_inv_def list_all_iff)
  have m1: "map_assign ?c ?e ?m = ?m @ [(?c, ?e)]"
    using below by (rule map_assign_append)
  have s1: "sorted (map (\<lambda>(k, e). timestamp e) (?m @ [(?c, ?e)]))"
    using assms by (auto simp: tm_inv_def sorted_append list_all_iff)
  have fl: "flushTokens W now2 (?m @ [(?c, ?e)]) =
            filter (\<lambda>(k, e). now2 - timestamp e < W) (?m @ [(?c, ?e)])"
    using s1 by (rule flushTokens_filter)
  show ?thesis
    by (simp add: generateTokenForPredictions_def Let_def m1 fl del: filter_append)
qed

lemma generate_mCurrentToken:
  "mCurrentToken (snd (generateTokenForPredictions W now1 now2 p tm)) = mCurrentToken tm + 1"
  by (simp add: generateTokenForPredictions_def Let_def)

lemma generate_lookup_other:
  assumes inv: "tm_inv f tm" and t: "f \<le> a" "a \<le> b" and tok: "tok < mCurrentToken tm"
    and ts: "timestamp e = ts"
    and cur: "map_of (mPredictions_tm tm) tok = (if f - ts < W then Some e else None)"
  shows "map_of (mPredictions_tm (snd (generateTokenForPredictions W a b p' tm))) tok =
         (if b - ts < W then Some e else None)"
proof -
  let ?m = "mPredictions_tm tm"
  let ?c = "mCurrentToken tm"
  let ?e = "\<lparr>timestamp = a, predictions = p'\<rparr>"
  let ?P = "\<lambda>(k, e). b - timestamp e < W"
  have d: "distinct (map fst (?m @ [(?c, ?e)]))"
    using inv by (auto simp: tm_inv_def list_all_iff dest: strict_sorted_imp_sorted
        intro: strict_sorted_iff[THEN iffD1, THEN conjunct2])
  have app: "map_of (?m @ [(?c, ?e)]) tok = map_of ?m tok"
    using tok by (auto simp: map_add_def split: option.splits)
  have "map_of (filter ?P (?m @ [(?c, ?e)])) tok =
        (case map_of ?m tok of Some x \<Rightarrow> if ?P (tok, x) then Some x else None | None \<Rightarrow> None)"
    using map_of_filter_distinct[OF d, of ?P tok] app by simp
  also have "\<dots> = (if b - ts < W then Some e else None)"
    using cur ts t by auto
  finally show ?thesis
    using generate_mPredictions_tm[OF inv t(1)] by simp
qed

lemma issue_all_lookup:
  "chronological f ops \<Longrightarrow> tm_inv f tm \<Longrightarrow> tok < mCurrentToken tm \<Longrightarrow> timestamp e = ts \<Longrightarrow>
   map_of (mPredictions_tm tm) tok = (if f - ts < W then Some e else None) \<Longrightarrow>
   map_of (mPredictions_tm (issue_all W ops tm)) tok =
     (if last_flush f ops - ts < W then Some e else None)"
proof (induction ops arbitrary: f tm)
  case Nil
  then show ?case by simp
next
  case (Cons op ops)
  obtain p' a b where op: "op = (p', a, b)" by (cases op)
  let ?tm' = "snd (generateTokenForPredictions W a b p' tm)"
  from Cons.prems op have t: "f \<le> a" "a \<le> b" and ch: "chronological b ops" by auto
  have inv': "tm_inv b ?tm'" using tm_inv_generate[OF Cons.prems(2) t] .
  have tok': "tok < mCurrentToken ?tm'" using Cons.prems(3) by (simp add: generate_mCurrentToken)
  have cur': "map_of (mPredictions_tm ?tm') tok = (if b - ts < W then Some e else None)"
    using generate_lookup_other[OF Cons.prems(2) t Cons.prems(3) Cons.prems(4) Cons.prems(5)] .
  show ?case
    using Cons.IH[OF ch inv' tok' Cons.prems(4) cur'] op by simp
qed

lemma last_flush_mono: "chronological f ops \<Longrightarrow> f \<le> last_flush f ops"
proof (induction ops arbitrary: f)
  case Nil
  then show ?case by simp
next
  case (Cons op ops)
  obtain p' a b where op: "op = (p', a, b)" by (cases op)
  with Cons.prems have "f \<le> b" "chronological b ops" by auto
  with Cons.IH[of b] op show ?case by simp
qed

lemma generate_lookup_new:
  assumes inv: "tm_inv now tm" and t: "now \<le> now1"
  shows "map_of (mPredictions_tm (snd (generateTokenForPredictions W now1 now2 p tm))) (mCurrentToken tm) =
         (if now2 - now1 < W then Some \<lparr>timestamp = now1, predictions = p\<rparr> else None)"
proof -
  let ?m = "mPredictions_tm tm"
  let ?c = "mCurrentToken tm"
  let ?e = "\<lparr>timestamp = now1, predictions = p\<rparr>"
  let ?P = "\<lambda>(k, e). now2 - timestamp e < W"
  have d: "distinct (map fst (?m @ [(?c, ?e)]))"
    using inv by (auto simp: tm_inv_def list_all_iff dest: strict_sorted_imp_sorted
        intro: strict_sorted_iff[THEN iffD1, THEN conjunct2])
  have "?c \<notin> fst ` set ?m" using inv by (auto simp: tm_inv_def list_all_iff)
  then have "map_of ?m ?c = None" by (simp add: map_of_eq_None_iff)
  then have app: "map_of (?m @ [(?c, ?e)]) ?c = Some ?e"
    by (simp add: map_add_def)
  show ?thesis
    using map_of_filter_distinct[OF d, of ?P ?c] app generate_mPredictions_tm[OF inv t] by simp
qed

text \<open>
  C1 (as amended). A token is issued at clock readings \<open>now1\<close> (stored) and \<open>now2\<close>
  (flush), and any number of later issues follow, the clock never going back. Then a lookup
  of the token returns its predictions if and only if the token's age at the most recent
  flush was below the retention window; in particular it returns them at every lookup time
  \<open>t\<close> at which the token's age is below the window. A lookup does not evict, so the
  age at lookup time alone does not decide the result. And a flush never removes an entry
  whose age is below the window.
\<close>

theorem token_lookup_window:
  assumes "tm_inv now tm" "now \<le> now1" "now1 \<le> now2" "chronological now2 later"
  shows "getPredictionsForToken
           (issue_all W later (snd (generateTokenForPredictions W now1 now2 p tm)))
           (fst (generateTokenForPredictions W now1 now2 p tm)) =
         (if last_flush now2 later - now1 < W then Some p else None)
       \<and> (last_flush now2 later \<le> t \<longrightarrow> t - now1 < W \<longrightarrow>
           getPredictionsForToken
             (issue_all W later (snd (generateTokenForPredictions W now1 now2 p tm)))
             (fst (generateTokenForPredictions W now1 now2 p tm)) = Some p)
       \<and> (distinct (map fst m) \<longrightarrow> map_of m k = Some e \<longrightarrow> f - timestamp e < W \<longrightarrow>
           map_of (flushTokens W f m) k = Some e)"
proof -
  let ?g = "generateTokenForPredictions W now1 now2 p tm"
  let ?e = "\<lparr>timestamp = now1, predictions = p\<rparr>"
  have tok: "fst ?g = mCurrentToken tm" by (simp add: generateTokenForPredictions_def Let_def)
  have inv1: "tm_inv now2 (snd ?g)" using tm_inv_generate[OF assms(1,2,3)] .
  have lt: "mCurrentToken tm < mCurrentToken (snd ?g)" by (simp add: generate_mCurrentToken)
  have new: "map_of (mPredictions_tm (snd ?g)) (mCurrentToken tm) = (if now2 - now1 < W then Some ?e else None)"
    using generate_lookup_new[OF assms(1,2)] .
  have "map_of (mPredictions_tm (issue_all W later (snd ?g))) (mCurrentToken tm) =
        (if last_flush now2 later - now1 < W then Some ?e else None)"
    using issue_all_lookup[OF assms(4) inv1 lt _ new] by simp
  then have A: "getPredictionsForToken (issue_all W later (snd ?g)) (fst ?g) =
         (if last_flush now2 later - now1 < W then Some p else None)"
    by (simp add: getPredictionsForToken_def tok)
  have C: "distinct (map fst m) \<longrightarrow> map_of m k = Some e \<longrightarrow> f - timestamp e < W \<longrightarrow>
           map_of (flushTokens W f m) k = Some e"
    using flushTokens_keeps_young by blast
  from A C show ?thesis by auto
qed


theorem token_lookup_window_witness:
  "tm_inv 0 ex_tm \<and> chronological 1000 [(ex_predictions, 50000000, 50000001)] \<and>
   getPredictionsForToken
     (issue_all 120000000 [(ex_predictions, 50000000, 50000001)]
        (snd (generateTokenForPredictions 120000000 0 1000 ex_predictions ex_tm)))
     (fst (generateTokenForPredictions 120000000 0 1000 ex_predictions ex_tm))
     = Some ex_predictions \<and>
   map_of (flushTokens 120000000 100000000
             [(0, \<lparr>timestamp = 0, predictions = ex_predictions\<rparr>)]) 0
     = Some \<lparr>timestamp = 0, predictions = ex_predictions\<rparr>"
proof -
  have h1: "tm_inv 0 ex_tm"
    by (simp add: tm_inv_def ex_tm_def)
  have h4: "chronological 1000 [(ex_predictions, 50000000, 50000001)]"
    by simp
  have "(0::int) \<le> 0" and "(0::int) \<le> 1000"
    by simp_all
  from token_lookup_window[OF h1 this h4,
      where W = 120000000 and p = ex_predictions and t = 100000000
        and m = "[(0, \<lparr>timestamp = 0, predictions = ex_predictions\<rparr>)]" and k = 0
        and e = "\<lparr>timestamp = 0, predictions = ex_predictions\<rparr>" and f = 100000000]
  show ?thesis
    using h1 h4 by simp
qed

text \<open>
  C1 as stated fails: a token issued at time 0 with a window of 120 ms is still returned by
  a lookup at 500 ms when no issue came in between, although its age is then above the
  window.
\<close>

theorem token_lookup_counterexample:
  "\<not> (getPredictionsForToken
         (snd (generateTokenForPredictions 120000000 0 0 ex_predictions ex_tm))
         (fst (generateTokenForPredictions 120000000 0 0 ex_predictions ex_tm)) \<noteq> None
       \<longleftrightarrow> (500000000 :: int) - 0 < 120000000)"
  by (simp add: generateTokenForPredictions_def getPredictionsForToken_def Let_def ex_tm_def)

section \<open>SurfaceFrame: present state and classification\<close>

text \<open>
  C7. \<^verbatim>\<open>setPresentState\<close> aborts exactly when the record's present state is already
  something other than Unknown; otherwise it stores the given state and last latch time, and
  so it does on a record fresh from the constructor.
\<close>
theorem setPresentState_once:
  "(setPresentState presentState lastLatchTime sf = Inl FatalAbort
      \<longleftrightarrow> mPresentState sf \<noteq> PresentState_Unknown)
   \<and> (mPresentState sf = PresentState_Unknown \<longrightarrow>
        setPresentState presentState lastLatchTime sf =
          Inr (sf\<lparr>mPresentState := presentState, mLastLatchTime := lastLatchTime\<rparr>))
   \<and> setPresentState presentState lastLatchTime
        (SurfaceFrame_new vsyncId inputEventId ownerPid ownerUid lname dname ps p th) =
        Inr ((SurfaceFrame_new vsyncId inputEventId ownerPid ownerUid lname dname ps p th)
               \<lparr>mPresentState := presentState, mLastLatchTime := lastLatchTime\<rparr>)"
  by (simp add: setPresentState_def SurfaceFrame_new_def SurfaceFrame_defaults_def)

theorem setPresentState_once_witness:
  "mPresentState ex_surface = PresentState_Unknown \<and>
   setPresentState Presented 5000000 ex_surface =
     Inr (ex_surface\<lparr>mPresentState := Presented, mLastLatchTime := 5000000\<rparr>) \<and>
   setPresentState Dropped 0
     (ex_surface\<lparr>mPresentState := Presented, mLastLatchTime := 5000000\<rparr>) = Inl FatalAbort"
proof -
  have u: "mPresentState ex_surface = PresentState_Unknown"
    by (simp add: ex_surface_def SurfaceFrame_new_def SurfaceFrame_defaults_def)
  have p: "mPresentState (ex_surface\<lparr>mPresentState := Presented, mLastLatchTime := 5000000\<rparr>)
             \<noteq> PresentState_Unknown"
    by simp
  show ?thesis
    using u
      setPresentState_once[where sf = ex_surface and presentState = Presented
        and lastLatchTime = 5000000]
      setPresentState_once[where presentState = Dropped and lastLatchTime = 0
        and sf = "ex_surface\<lparr>mPresentState := Presented, mLastLatchTime := 5000000\<rparr>",
        THEN conjunct1, THEN iffD2, OF p]
    by simp
qed

text \<open>
  C9. On a surface frame that is not Presented, \<^verbatim>\<open>onPresent\<close> returns at once: the record
  is unchanged as a whole (actual present time, jank type and both metadata included) and
  nothing is handed to the metrics collaborator.
\<close>

theorem onPresent_not_presented:
  "mPresentState sf \<noteq> Presented \<Longrightarrow>
   SurfaceFrame_onPresent presentTime' displayFrameJankType refreshRate' dd dv sf = Inr (sf, [])"
  by (simp add: SurfaceFrame_onPresent_def)

theorem onPresent_not_presented_witness:
  "mPresentState ex_dropped \<noteq> Presented \<and>
   SurfaceFrame_onPresent 16000000 DisplayHAL ex_fps60 0 0 ex_dropped = Inr (ex_dropped, [])"
proof -
  have h: "mPresentState ex_dropped \<noteq> Presented"
    by (simp add: ex_dropped_def setPresentState_def setAcquireFenceTime_def ex_surface_def
        SurfaceFrame_new_def SurfaceFrame_defaults_def)
  from onPresent_not_presented[OF h] h show ?thesis by simp
qed

lemma onPresent_valid_returns:
  assumes "mPresentState sf = Presented" "mPredictionState sf = Valid"
    "getPeriodNsecs r \<noteq> 0"
  shows "\<exists>sf' out. SurfaceFrame_onPresent t j r dd dv sf = Inr (sf', out)"
  using assms by (simp add: SurfaceFrame_onPresent_def rem_nsecs_def Let_def)

lemma onPresent_valid_period:
  assumes "mPresentState sf = Presented" "mPredictionState sf = Valid"
    "SurfaceFrame_onPresent t j r dd dv sf = Inr (sf', out)"
  shows "getPeriodNsecs r \<noteq> 0"
proof
  assume "getPeriodNsecs r = 0"
  then have "SurfaceFrame_onPresent t j r dd dv sf = Inl DivideByZero"
    using assms(1,2) by (simp add: SurfaceFrame_onPresent_def rem_nsecs_def Let_def)
  with assms(3) show False by simp
qed

lemma onPresent_valid_present_metadata:
  assumes "mPresentState sf = Presented" "mPredictionState sf = Valid"
    "SurfaceFrame_onPresent t j r dd dv sf = Inr (sf', out)"
  shows "mFramePresentMetadata sf' =
     (if \<bar>t - presentTime (mPredictions sf)\<bar> > presentThreshold (mJankClassificationThresholds sf)
      then (if t - presentTime (mPredictions sf) > 0 then LatePresent else EarlyPresent)
      else OnTimePresent)"
proof -
  have ne: "getPeriodNsecs r \<noteq> 0"
    using onPresent_valid_period[OF assms] .
  have "mFramePresentMetadata (fst (projr (SurfaceFrame_onPresent t j r dd dv sf))) =
     (if \<bar>t - presentTime (mPredictions sf)\<bar> > presentThreshold (mJankClassificationThresholds sf)
      then (if t - presentTime (mPredictions sf) > 0 then LatePresent else EarlyPresent)
      else OnTimePresent)"
    using assms(1,2) ne by (simp add: SurfaceFrame_onPresent_def rem_nsecs_def Let_def)
  then show ?thesis by (simp add: assms(3))
qed

lemma onPresent_valid_ready_metadata:
  assumes "mPresentState sf = Presented" "mPredictionState sf = Valid"
    "SurfaceFrame_onPresent t j r dd dv sf = Inr (sf', out)"
  shows "mFrameReadyMetadata sf' =
     (if endTime (mActuals sf) - endTime (mPredictions sf)
           > deadlineThreshold (mJankClassificationThresholds sf)
      then LateFinish else OnTimeFinish)"
proof -
  have ne: "getPeriodNsecs r \<noteq> 0"
    using onPresent_valid_period[OF assms] .
  have "mFrameReadyMetadata (fst (projr (SurfaceFrame_onPresent t j r dd dv sf))) =
     (if endTime (mActuals sf) - endTime (mPredictions sf)
           > deadlineThreshold (mJankClassificationThresholds sf)
      then LateFinish else OnTimeFinish)"
    using assms(1,2) ne by (simp add: SurfaceFrame_onPresent_def rem_nsecs_def Let_def)
  then show ?thesis by (simp add: assms(3))
qed

lemma onPresent_valid_on_time_jank:
  assumes "mPresentState sf = Presented" "mPredictionState sf = Valid"
    "SurfaceFrame_onPresent t j r dd dv sf = Inr (sf', out)"
    "\<bar>t - presentTime (mPredictions sf)\<bar> \<le> presentThreshold (mJankClassificationThresholds sf)"
  shows "mJankType sf' = JankType_None"
proof -
  have ne: "getPeriodNsecs r \<noteq> 0"
    using onPresent_valid_period[OF assms(1,2,3)] .
  have "mJankType (fst (projr (SurfaceFrame_onPresent t j r dd dv sf))) = JankType_None"
    using assms(1,2,4) ne by (simp add: SurfaceFrame_onPresent_def rem_nsecs_def Let_def)
  then show ?thesis by (simp add: assms(3))
qed

lemma onPresent_valid_late_jank:
  assumes "mPresentState sf = Presented" "mPredictionState sf = Valid"
    "SurfaceFrame_onPresent t dj r dd dv sf = Inr (sf', out)"
    "\<bar>t - presentTime (mPredictions sf)\<bar> > presentThreshold (mJankClassificationThresholds sf)"
    "t - presentTime (mPredictions sf) > 0"
  shows "mJankType sf' =
     (let th = presentThreshold (mJankClassificationThresholds sf);
          deltaToVsync = \<bar>t - presentTime (mPredictions sf)\<bar> mod \<bar>getPeriodNsecs r\<bar>;
          stuffed = (if mLastLatchTime sf \<noteq> 0 \<and> endTime (mPredictions sf) \<le> mLastLatchTime sf
                     then mJankType sf OR BufferStuffing else mJankType sf)
      in if endTime (mActuals sf) - endTime (mPredictions sf)
              \<le> deadlineThreshold (mJankClassificationThresholds sf)
         then (if dj \<noteq> JankType_None then stuffed OR dj
               else if deltaToVsync < th \<or> deltaToVsync \<ge> getPeriodNsecs r - th
               then stuffed OR SurfaceFlingerScheduling
               else stuffed OR PredictionError)
         else (if dj = JankType_None then stuffed OR AppDeadlineMissed else stuffed OR dj))"
proof -
  have ne: "getPeriodNsecs r \<noteq> 0"
    using onPresent_valid_period[OF assms(1,2,3)] .
  have sg: "sgn \<bar>t - presentTime (mPredictions sf)\<bar> = 1"
    using assms(5) by simp
  have "mJankType (fst (projr (SurfaceFrame_onPresent t dj r dd dv sf))) =
     (let th = presentThreshold (mJankClassificationThresholds sf);
          deltaToVsync = \<bar>t - presentTime (mPredictions sf)\<bar> mod \<bar>getPeriodNsecs r\<bar>;
          stuffed = (if mLastLatchTime sf \<noteq> 0 \<and> endTime (mPredictions sf) \<le> mLastLatchTime sf
                     then mJankType sf OR BufferStuffing else mJankType sf)
      in if endTime (mActuals sf) - endTime (mPredictions sf)
              \<le> deadlineThreshold (mJankClassificationThresholds sf)
         then (if dj \<noteq> JankType_None then stuffed OR dj
               else if deltaToVsync < th \<or> deltaToVsync \<ge> getPeriodNsecs r - th
               then stuffed OR SurfaceFlingerScheduling
               else stuffed OR PredictionError)
         else (if dj = JankType_None then stuffed OR AppDeadlineMissed else stuffed OR dj))"
    using assms(1,2,4,5) ne sg
    by (simp add: SurfaceFrame_onPresent_def rem_nsecs_def Let_def)
  then show ?thesis by (simp add: assms(3))
qed

text \<open>
  C6. For a presented surface frame with valid predictions, whenever the classification
  yields OnTimePresent the resulting jank type is None, whatever the finish metadata and the
  display frame's jank type are. The classification does return when the refresh period is
  not zero, and it yields OnTimePresent when the present time is within the present
  threshold of the prediction.
\<close>

theorem on_time_present_no_jank:
  assumes "mPresentState sf = Presented" "mPredictionState sf = Valid"
  shows "(SurfaceFrame_onPresent t dj r dd dv sf = Inr (sf', out) \<longrightarrow>
          mFramePresentMetadata sf' = OnTimePresent \<longrightarrow> mJankType sf' = JankType_None)
       \<and> (getPeriodNsecs r \<noteq> 0 \<longrightarrow>
          \<bar>t - presentTime (mPredictions sf)\<bar>
             \<le> presentThreshold (mJankClassificationThresholds sf) \<longrightarrow>
          (\<exists>sf'' out'. SurfaceFrame_onPresent t dj r dd dv sf = Inr (sf'', out') \<and>
             mFramePresentMetadata sf'' = OnTimePresent \<and> mJankType sf'' = JankType_None))"
proof (intro conjI impI)
  assume ret: "SurfaceFrame_onPresent t dj r dd dv sf = Inr (sf', out)"
    and m: "mFramePresentMetadata sf' = OnTimePresent"
  have "\<bar>t - presentTime (mPredictions sf)\<bar>
          \<le> presentThreshold (mJankClassificationThresholds sf)"
    using onPresent_valid_present_metadata[OF assms ret] m by (simp split: if_splits)
  then show "mJankType sf' = JankType_None"
    using onPresent_valid_on_time_jank[OF assms ret] by simp
next
  assume ne: "getPeriodNsecs r \<noteq> 0"
    and le: "\<bar>t - presentTime (mPredictions sf)\<bar>
               \<le> presentThreshold (mJankClassificationThresholds sf)"
  obtain sf'' out' where ret: "SurfaceFrame_onPresent t dj r dd dv sf = Inr (sf'', out')"
    using onPresent_valid_returns[OF assms ne] by blast
  have "mFramePresentMetadata sf'' = OnTimePresent"
    using onPresent_valid_present_metadata[OF assms ret] le by simp
  moreover have "mJankType sf'' = JankType_None"
    using onPresent_valid_on_time_jank[OF assms ret le] .
  ultimately show "\<exists>sf'' out'. SurfaceFrame_onPresent t dj r dd dv sf = Inr (sf'', out') \<and>
             mFramePresentMetadata sf'' = OnTimePresent \<and> mJankType sf'' = JankType_None"
    using ret by blast
qed

lemma ex_presented_simps:
  "mPresentState ex_presented = Presented" "mPredictionState ex_presented = Valid"
  "mPredictions ex_presented = ex_predictions"
  "mJankClassificationThresholds ex_presented = ex_thresholds"
  "mActuals ex_presented = \<lparr>startTime = 0, endTime = 11000000, presentTime = 0\<rparr>"
  "mLastLatchTime ex_presented = 0" "mJankType ex_presented = JankType_None"
  by (simp_all add: ex_presented_def setPresentState_def setAcquireFenceTime_def ex_surface_def
      SurfaceFrame_new_def SurfaceFrame_defaults_def)

theorem on_time_present_no_jank_witness:
  "mPresentState ex_presented = Presented \<and> mPredictionState ex_presented = Valid \<and>
   getPeriodNsecs ex_fps60 \<noteq> 0 \<and>
   \<bar>16000000 - presentTime (mPredictions ex_presented)\<bar>
      \<le> presentThreshold (mJankClassificationThresholds ex_presented) \<and>
   (\<exists>sf'' out'. SurfaceFrame_onPresent 16000000 DisplayHAL ex_fps60 0 0 ex_presented
                   = Inr (sf'', out') \<and>
      mFramePresentMetadata sf'' = OnTimePresent \<and> mJankType sf'' = JankType_None)"
proof -
  have h3: "getPeriodNsecs ex_fps60 \<noteq> 0"
    by (simp add: ex_fps60_def)
  have h4: "\<bar>16000000 - presentTime (mPredictions ex_presented)\<bar>
              \<le> presentThreshold (mJankClassificationThresholds ex_presented)"
    by (simp add: ex_presented_simps ex_predictions_def ex_thresholds_def)
  from on_time_present_no_jank[OF ex_presented_simps(1,2), THEN conjunct2, rule_format, OF h3 h4]
  show ?thesis
    using ex_presented_simps(1,2) h3 h4 by blast
qed

text \<open>
  C5. For a presented surface frame with valid predictions that is classified LatePresent:
  first BufferStuffing is OR-ed into the causes when the last latch time is not zero and the
  predicted end is not after it; then, on OnTimeFinish, the display frame's causes are OR-ed
  in when it is janky, else the vsync-factor test on \<open>\<bar>presentDelta\<bar> mod period\<close> chooses
  SurfaceFlingerScheduling or PredictionError; on LateFinish, AppDeadlineMissed is OR-ed in
  when the display frame is clean, else the display frame's causes. The classification
  returns, with LatePresent, when the period is not zero and the frame is presented later
  than the prediction by more than the threshold.
\<close>

theorem late_present_classification:
  assumes "mPresentState sf = Presented" "mPredictionState sf = Valid"
  shows "(SurfaceFrame_onPresent t dj r dd dv sf = Inr (sf', out) \<longrightarrow>
          mFramePresentMetadata sf' = LatePresent \<longrightarrow>
          mJankType sf' =
            (let th = presentThreshold (mJankClassificationThresholds sf);
                 deltaToVsync = \<bar>t - presentTime (mPredictions sf)\<bar> mod \<bar>getPeriodNsecs r\<bar>;
                 stuffed = (if mLastLatchTime sf \<noteq> 0 \<and>
                               endTime (mPredictions sf) \<le> mLastLatchTime sf
                            then mJankType sf OR BufferStuffing else mJankType sf)
             in if mFrameReadyMetadata sf' = OnTimeFinish then
                  (if dj \<noteq> JankType_None then stuffed OR dj
                   else if deltaToVsync < th \<or> deltaToVsync \<ge> getPeriodNsecs r - th
                   then stuffed OR SurfaceFlingerScheduling
                   else stuffed OR PredictionError)
                else if mFrameReadyMetadata sf' = LateFinish then
                  (if dj = JankType_None then stuffed OR AppDeadlineMissed
                   else stuffed OR dj)
                else stuffed))
       \<and> (getPeriodNsecs r \<noteq> 0 \<longrightarrow>
          t - presentTime (mPredictions sf)
             > presentThreshold (mJankClassificationThresholds sf) \<longrightarrow>
          t - presentTime (mPredictions sf) > 0 \<longrightarrow>
          (\<exists>sf'' out'. SurfaceFrame_onPresent t dj r dd dv sf = Inr (sf'', out') \<and>
             mFramePresentMetadata sf'' = LatePresent))"
proof (intro conjI impI)
  assume ret: "SurfaceFrame_onPresent t dj r dd dv sf = Inr (sf', out)"
    and m: "mFramePresentMetadata sf' = LatePresent"
  have c: "\<bar>t - presentTime (mPredictions sf)\<bar>
             > presentThreshold (mJankClassificationThresholds sf)"
      "t - presentTime (mPredictions sf) > 0"
    using onPresent_valid_present_metadata[OF assms ret] m by (simp_all split: if_splits)
  show "mJankType sf' =
            (let th = presentThreshold (mJankClassificationThresholds sf);
                 deltaToVsync = \<bar>t - presentTime (mPredictions sf)\<bar> mod \<bar>getPeriodNsecs r\<bar>;
                 stuffed = (if mLastLatchTime sf \<noteq> 0 \<and>
                               endTime (mPredictions sf) \<le> mLastLatchTime sf
                            then mJankType sf OR BufferStuffing else mJankType sf)
             in if mFrameReadyMetadata sf' = OnTimeFinish then
                  (if dj \<noteq> JankType_None then stuffed OR dj
                   else if deltaToVsync < th \<or> deltaToVsync \<ge> getPeriodNsecs r - th
                   then stuffed OR SurfaceFlingerScheduling
                   else stuffed OR PredictionError)
                else if mFrameReadyMetadata sf' = LateFinish then
                  (if dj = JankType_None then stuffed OR AppDeadlineMissed
                   else stuffed OR dj)
                else stuffed)"
    unfolding onPresent_valid_late_jank[OF assms ret c]
      onPresent_valid_ready_metadata[OF assms ret]
    by (simp add: Let_def)
next
  assume ne: "getPeriodNsecs r \<noteq> 0"
    and gt: "t - presentTime (mPredictions sf)
               > presentThreshold (mJankClassificationThresholds sf)"
    and pos: "t - presentTime (mPredictions sf) > 0"
  obtain sf'' out' where ret: "SurfaceFrame_onPresent t dj r dd dv sf = Inr (sf'', out')"
    using onPresent_valid_returns[OF assms ne] by blast
  have "mFramePresentMetadata sf'' = LatePresent"
    using onPresent_valid_present_metadata[OF assms ret] gt pos by simp
  then show "\<exists>sf'' out'. SurfaceFrame_onPresent t dj r dd dv sf = Inr (sf'', out') \<and>
             mFramePresentMetadata sf'' = LatePresent"
    using ret by blast
qed

theorem late_present_classification_witness:
  "mPresentState ex_presented = Presented \<and> mPredictionState ex_presented = Valid \<and>
   getPeriodNsecs ex_fps60 \<noteq> 0 \<and>
   26000000 - presentTime (mPredictions ex_presented)
      > presentThreshold (mJankClassificationThresholds ex_presented) \<and>
   (\<exists>sf'' out'. SurfaceFrame_onPresent 26000000 JankType_None ex_fps60 0 0 ex_presented
                   = Inr (sf'', out') \<and>
      mFramePresentMetadata sf'' = LatePresent \<and> mFrameReadyMetadata sf'' = OnTimeFinish \<and>
      mJankType sf'' = PredictionError)"
proof -
  have h3: "getPeriodNsecs ex_fps60 \<noteq> 0"
    by (simp add: ex_fps60_def)
  have h4: "26000000 - presentTime (mPredictions ex_presented)
              > presentThreshold (mJankClassificationThresholds ex_presented)"
    by (simp add: ex_presented_simps ex_predictions_def ex_thresholds_def)
  have h5: "26000000 - presentTime (mPredictions ex_presented) > 0"
    by (simp add: ex_presented_simps ex_predictions_def)
  obtain sf'' out' where
    ret: "SurfaceFrame_onPresent 26000000 JankType_None ex_fps60 0 0 ex_presented
            = Inr (sf'', out')"
    and late: "mFramePresentMetadata sf'' = LatePresent"
    using late_present_classification[OF ex_presented_simps(1,2), THEN conjunct2, rule_format,
        OF h3 h4 h5]
    by blast
  have ready: "mFrameReadyMetadata sf'' = OnTimeFinish"
    using onPresent_valid_ready_metadata[OF ex_presented_simps(1,2) ret]
    by (simp add: ex_presented_simps ex_predictions_def ex_thresholds_def)
  have "mJankType sf'' = PredictionError"
    using late_present_classification[OF ex_presented_simps(1,2), THEN conjunct1, rule_format,
        OF ret late]
    by (simp add: ready ex_presented_simps ex_predictions_def ex_thresholds_def ex_fps60_def
        JankType_None_def)
  with ret late ready ex_presented_simps(1,2) h3 h4 show ?thesis
    by blast
qed

section \<open>DisplayFrame: classification\<close>

lemma rem_nsecs_abs: "b \<noteq> 0 \<Longrightarrow> rem_nsecs \<bar>a\<bar> b = Inr (\<bar>a\<bar> mod \<bar>b\<bar>)"
  by (cases "a = 0") (simp_all add: rem_nsecs_def)

lemma rem_nsecs_zero: "rem_nsecs a 0 = Inl DivideByZero"
  by (simp add: rem_nsecs_def)

lemma SurfaceFrame_onPresent_not_Inl:
  "getPeriodNsecs r \<noteq> 0 \<Longrightarrow> SurfaceFrame_onPresent t j r dd dv sf \<noteq> Inl e"
  by (simp add: SurfaceFrame_onPresent_def rem_nsecs_abs Let_def)

lemma onPresent_each_not_isl:
  "getPeriodNsecs r \<noteq> 0 \<Longrightarrow> \<not> isl (onPresent_each t j r dd dv sfs)"
proof (induction sfs)
  case Nil
  then show ?case by simp
next
  case (Cons sf sfs)
  then show ?case
    by (auto simp: SurfaceFrame_onPresent_not_Inl split: sum.splits)
qed

lemma case_sum_projr: "\<not> isl x \<Longrightarrow> case_sum f g x = g (projr x)"
  by (cases x) simp_all

lemmas df_if_distrib =
  if_distrib[where f = mRefreshRate] if_distrib[where f = mSurfaceFrames]
  if_distrib[where f = mJankType_df] if_distrib[where f = mFramePresentMetadata_df]
  if_distrib[where f = mFrameReadyMetadata_df] if_distrib[where f = mSurfaceFlingerActuals]
  if_distrib[where f = mSurfaceFlingerPredictions]
  if_distrib[where f = mJankClassificationThresholds_df]
  if_distrib[where f = "\<lambda>r. mSurfaceFrames_update g r" for g]

lemma DisplayFrame_onPresent_returns:
  assumes "getPeriodNsecs (mRefreshRate d) \<noteq> 0"
  shows "\<not> isl (DisplayFrame_onPresent t d)"
  using assms
  by (simp add: DisplayFrame_onPresent_def rem_nsecs_abs Let_def onPresent_each_not_isl
      case_sum_projr split_beta df_if_distrib split del: if_split cong: if_cong)

lemma DisplayFrame_onPresent_period:
  assumes "DisplayFrame_onPresent t d = Inr (d', outs)"
  shows "getPeriodNsecs (mRefreshRate d) \<noteq> 0"
proof
  assume "getPeriodNsecs (mRefreshRate d) = 0"
  then have "DisplayFrame_onPresent t d = Inl DivideByZero"
    by (simp add: DisplayFrame_onPresent_def rem_nsecs_zero Let_def)
  with assms show False by simp
qed

lemma DisplayFrame_onPresent_present_metadata:
  assumes "DisplayFrame_onPresent t d = Inr (d', outs)"
  shows "mFramePresentMetadata_df d' =
     (if \<bar>t - presentTime (mSurfaceFlingerPredictions d)\<bar>
           > presentThreshold (mJankClassificationThresholds_df d)
      then (if t - presentTime (mSurfaceFlingerPredictions d) > 0 then LatePresent
            else EarlyPresent)
      else OnTimePresent)"
proof -
  have ne: "getPeriodNsecs (mRefreshRate d) \<noteq> 0"
    using DisplayFrame_onPresent_period[OF assms] .
  have "mFramePresentMetadata_df (fst (projr (DisplayFrame_onPresent t d))) =
     (if \<bar>t - presentTime (mSurfaceFlingerPredictions d)\<bar>
           > presentThreshold (mJankClassificationThresholds_df d)
      then (if t - presentTime (mSurfaceFlingerPredictions d) > 0 then LatePresent
            else EarlyPresent)
      else OnTimePresent)"
    using ne
    by (simp add: DisplayFrame_onPresent_def rem_nsecs_abs Let_def onPresent_each_not_isl
          case_sum_projr split_beta df_if_distrib split del: if_split cong: if_cong;
        simp)
  then show ?thesis by (simp add: assms)
qed

lemma DisplayFrame_onPresent_ready_metadata:
  assumes "DisplayFrame_onPresent t d = Inr (d', outs)"
  shows "mFrameReadyMetadata_df d' =
     (if endTime (mSurfaceFlingerActuals d) - endTime (mSurfaceFlingerPredictions d)
           > deadlineThreshold (mJankClassificationThresholds_df d)
      then LateFinish else OnTimeFinish)"
proof -
  have ne: "getPeriodNsecs (mRefreshRate d) \<noteq> 0"
    using DisplayFrame_onPresent_period[OF assms] .
  have "mFrameReadyMetadata_df (fst (projr (DisplayFrame_onPresent t d))) =
     (if endTime (mSurfaceFlingerActuals d) - endTime (mSurfaceFlingerPredictions d)
           > deadlineThreshold (mJankClassificationThresholds_df d)
      then LateFinish else OnTimeFinish)"
    using ne
    by (simp add: DisplayFrame_onPresent_def rem_nsecs_abs Let_def onPresent_each_not_isl
          case_sum_projr split_beta df_if_distrib split del: if_split cong: if_cong;
        simp)
  then show ?thesis by (simp add: assms)
qed

lemma DisplayFrame_onPresent_jank:
  assumes "DisplayFrame_onPresent t d = Inr (d', outs)"
  shows "mJankType_df d' =
     (let th = presentThreshold (mJankClassificationThresholds_df d);
          presentDelta = t - presentTime (mSurfaceFlingerPredictions d);
          late = (endTime (mSurfaceFlingerActuals d) - endTime (mSurfaceFlingerPredictions d)
                    > deadlineThreshold (mJankClassificationThresholds_df d));
          deltaToVsync = \<bar>presentDelta\<bar> mod \<bar>getPeriodNsecs (mRefreshRate d)\<bar>;
          factor = (deltaToVsync < th \<or> deltaToVsync \<ge> getPeriodNsecs (mRefreshRate d) - th)
      in if \<bar>presentDelta\<bar> \<le> th then mJankType_df d
         else if presentDelta \<le> 0 then
           (if late then SurfaceFlingerScheduling
            else if factor then SurfaceFlingerScheduling else PredictionError)
         else
           (if late then SurfaceFlingerCpuDeadlineMissed
            else if factor then DisplayHAL else PredictionError))"
proof -
  have ne: "getPeriodNsecs (mRefreshRate d) \<noteq> 0"
    using DisplayFrame_onPresent_period[OF assms] .
  have "mJankType_df (fst (projr (DisplayFrame_onPresent t d))) =
     (let th = presentThreshold (mJankClassificationThresholds_df d);
          presentDelta = t - presentTime (mSurfaceFlingerPredictions d);
          late = (endTime (mSurfaceFlingerActuals d) - endTime (mSurfaceFlingerPredictions d)
                    > deadlineThreshold (mJankClassificationThresholds_df d));
          deltaToVsync = \<bar>presentDelta\<bar> mod \<bar>getPeriodNsecs (mRefreshRate d)\<bar>;
          factor = (deltaToVsync < th \<or> deltaToVsync \<ge> getPeriodNsecs (mRefreshRate d) - th)
      in if \<bar>presentDelta\<bar> \<le> th then mJankType_df d
         else if presentDelta \<le> 0 then
           (if late then SurfaceFlingerScheduling
            else if factor then SurfaceFlingerScheduling else PredictionError)
         else
           (if late then SurfaceFlingerCpuDeadlineMissed
            else if factor then DisplayHAL else PredictionError))"
    using ne
    by (simp add: DisplayFrame_onPresent_def rem_nsecs_abs Let_def onPresent_each_not_isl
          case_sum_projr split_beta df_if_distrib split del: if_split cong: if_cong;
        simp)
  then show ?thesis by (simp add: assms)
qed


text \<open>
  C2 (as amended). The display frame's classifier derives the present and finish metadata as
  the surface frame's does and decides on them: OnTimePresent leaves the jank type as it
  was; EarlyPresent with OnTimeFinish takes the vsync-factor test between
  SurfaceFlingerScheduling and PredictionError; EarlyPresent with LateFinish gives
  SurfaceFlingerScheduling; LatePresent with OnTimeFinish takes the vsync-factor test between
  DisplayHAL and PredictionError; LatePresent with LateFinish gives
  SurfaceFlingerCpuDeadlineMissed. It returns whenever the refresh period is not zero.
\<close>

theorem display_classification:
  "(getPeriodNsecs (mRefreshRate d) \<noteq> 0 \<longrightarrow>
      (\<exists>d'' outs'. DisplayFrame_onPresent t d = Inr (d'', outs')))
   \<and> (DisplayFrame_onPresent t d = Inr (d', outs) \<longrightarrow>
        mFramePresentMetadata_df d' =
          (if \<bar>t - presentTime (mSurfaceFlingerPredictions d)\<bar>
                > presentThreshold (mJankClassificationThresholds_df d)
           then (if t - presentTime (mSurfaceFlingerPredictions d) > 0 then LatePresent
                 else EarlyPresent)
           else OnTimePresent)
      \<and> mFrameReadyMetadata_df d' =
          (if endTime (mSurfaceFlingerActuals d) - endTime (mSurfaceFlingerPredictions d)
                > deadlineThreshold (mJankClassificationThresholds_df d)
           then LateFinish else OnTimeFinish)
      \<and> mJankType_df d' =
          (let th = presentThreshold (mJankClassificationThresholds_df d);
               deltaToVsync = \<bar>t - presentTime (mSurfaceFlingerPredictions d)\<bar>
                                mod \<bar>getPeriodNsecs (mRefreshRate d)\<bar>;
               factor = (deltaToVsync < th \<or>
                         deltaToVsync \<ge> getPeriodNsecs (mRefreshRate d) - th)
           in if mFramePresentMetadata_df d' = OnTimePresent then mJankType_df d
              else if mFramePresentMetadata_df d' = EarlyPresent then
                (if mFrameReadyMetadata_df d' = OnTimeFinish
                 then (if factor then SurfaceFlingerScheduling else PredictionError)
                 else SurfaceFlingerScheduling)
              else
                (if mFrameReadyMetadata_df d' = OnTimeFinish
                 then (if factor then DisplayHAL else PredictionError)
                 else SurfaceFlingerCpuDeadlineMissed))
      \<and> (mFramePresentMetadata_df d' = EarlyPresent \<longrightarrow>
         mFrameReadyMetadata_df d' = LateFinish \<longrightarrow>
         mJankType_df d' = SurfaceFlingerScheduling))"
proof (intro conjI impI)
  assume "getPeriodNsecs (mRefreshRate d) \<noteq> 0"
  then have "\<not> isl (DisplayFrame_onPresent t d)"
    by (rule DisplayFrame_onPresent_returns)
  then show "\<exists>d'' outs'. DisplayFrame_onPresent t d = Inr (d'', outs')"
    by (cases "DisplayFrame_onPresent t d") auto
next
  assume ret: "DisplayFrame_onPresent t d = Inr (d', outs)"
  show "mFramePresentMetadata_df d' =
          (if \<bar>t - presentTime (mSurfaceFlingerPredictions d)\<bar>
                > presentThreshold (mJankClassificationThresholds_df d)
           then (if t - presentTime (mSurfaceFlingerPredictions d) > 0 then LatePresent
                 else EarlyPresent)
           else OnTimePresent)"
    using DisplayFrame_onPresent_present_metadata[OF ret] .
next
  assume ret: "DisplayFrame_onPresent t d = Inr (d', outs)"
  show "mFrameReadyMetadata_df d' =
          (if endTime (mSurfaceFlingerActuals d) - endTime (mSurfaceFlingerPredictions d)
                > deadlineThreshold (mJankClassificationThresholds_df d)
           then LateFinish else OnTimeFinish)"
    using DisplayFrame_onPresent_ready_metadata[OF ret] .
next
  assume ret: "DisplayFrame_onPresent t d = Inr (d', outs)"
  show "mJankType_df d' =
          (let th = presentThreshold (mJankClassificationThresholds_df d);
               deltaToVsync = \<bar>t - presentTime (mSurfaceFlingerPredictions d)\<bar>
                                mod \<bar>getPeriodNsecs (mRefreshRate d)\<bar>;
               factor = (deltaToVsync < th \<or>
                         deltaToVsync \<ge> getPeriodNsecs (mRefreshRate d) - th)
           in if mFramePresentMetadata_df d' = OnTimePresent then mJankType_df d
              else if mFramePresentMetadata_df d' = EarlyPresent then
                (if mFrameReadyMetadata_df d' = OnTimeFinish
                 then (if factor then SurfaceFlingerScheduling else PredictionError)
                 else SurfaceFlingerScheduling)
              else
                (if mFrameReadyMetadata_df d' = OnTimeFinish
                 then (if factor then DisplayHAL else PredictionError)
                 else SurfaceFlingerCpuDeadlineMissed))"
    unfolding DisplayFrame_onPresent_jank[OF ret]
      DisplayFrame_onPresent_present_metadata[OF ret]
      DisplayFrame_onPresent_ready_metadata[OF ret]
    by (simp add: Let_def)
next
  assume ret: "DisplayFrame_onPresent t d = Inr (d', outs)"
    and e: "mFramePresentMetadata_df d' = EarlyPresent"
    and l: "mFrameReadyMetadata_df d' = LateFinish"
  have "\<bar>t - presentTime (mSurfaceFlingerPredictions d)\<bar>
          > presentThreshold (mJankClassificationThresholds_df d)"
       "\<not> t - presentTime (mSurfaceFlingerPredictions d) > 0"
    using DisplayFrame_onPresent_present_metadata[OF ret] e by (simp_all split: if_splits)
  moreover have "endTime (mSurfaceFlingerActuals d) - endTime (mSurfaceFlingerPredictions d)
                > deadlineThreshold (mJankClassificationThresholds_df d)"
    using DisplayFrame_onPresent_ready_metadata[OF ret] l by (simp split: if_splits)
  ultimately show "mJankType_df d' = SurfaceFlingerScheduling"
    unfolding DisplayFrame_onPresent_jank[OF ret] by (simp add: Let_def)
qed

lemma ex_display_simps:
  "mRefreshRate ex_display = ex_fps60"
  "mSurfaceFlingerPredictions ex_display = ex_predictions"
  "mSurfaceFlingerActuals ex_display = \<lparr>startTime = 0, endTime = 15000000, presentTime = 0\<rparr>"
  "mJankClassificationThresholds_df ex_display = ex_thresholds"
  "mSurfaceFrames ex_display = []" "mJankType_df ex_display = JankType_None"
  by (simp_all add: ex_display_def setActualEndTime_def onSfWakeUp_def DisplayFrame_new_def DisplayFrame_defaults_def
      Let_def)

theorem display_classification_witness:
  "getPeriodNsecs (mRefreshRate ex_display) \<noteq> 0 \<and>
   (\<exists>d'' outs'. DisplayFrame_onPresent 6000000 ex_display = Inr (d'', outs') \<and>
      mFramePresentMetadata_df d'' = EarlyPresent \<and> mFrameReadyMetadata_df d'' = LateFinish \<and>
      mJankType_df d'' = SurfaceFlingerScheduling)"
proof -
  have ne: "getPeriodNsecs (mRefreshRate ex_display) \<noteq> 0"
    by (simp add: ex_display_simps ex_fps60_def)
  obtain d'' outs' where ret: "DisplayFrame_onPresent 6000000 ex_display = Inr (d'', outs')"
    using display_classification[where d = ex_display and t = 6000000, THEN conjunct1,
        rule_format, OF ne]
    by blast
  note facts = display_classification[where d = ex_display and t = 6000000 and d' = d''
      and outs = outs', THEN conjunct2, rule_format, OF ret]
  have e: "mFramePresentMetadata_df d'' = EarlyPresent"
    using facts by (simp add: ex_display_simps ex_predictions_def ex_thresholds_def)
  have l: "mFrameReadyMetadata_df d'' = LateFinish"
    using facts by (simp add: ex_display_simps ex_predictions_def ex_thresholds_def)
  have "mJankType_df d'' = SurfaceFlingerScheduling"
    using facts e l by blast
  with ne ret e l show ?thesis by blast
qed

text \<open>
  C2 as stated fails: a display frame presented 10 ms early whose work ended 5 ms late is
  classified SurfaceFlingerScheduling, not Unknown.
\<close>

theorem display_early_late_counterexample:
  "\<not> isl (DisplayFrame_onPresent 6000000 ex_display) \<and>
   mFramePresentMetadata_df (fst (projr (DisplayFrame_onPresent 6000000 ex_display)))
     = EarlyPresent \<and>
   mFrameReadyMetadata_df (fst (projr (DisplayFrame_onPresent 6000000 ex_display)))
     = LateFinish \<and>
   mJankType_df (fst (projr (DisplayFrame_onPresent 6000000 ex_display)))
     \<noteq> JankType_Unknown"
proof -
  have eq: "DisplayFrame_onPresent 6000000 ex_display =
      Inr (ex_display\<lparr>mSurfaceFlingerActuals :=
                        \<lparr>startTime = 0, endTime = 15000000, presentTime = 6000000\<rparr>,
                      mFramePresentMetadata_df := EarlyPresent,
                      mFrameReadyMetadata_df := LateFinish,
                      mJankType_df := SurfaceFlingerScheduling,
                      mSurfaceFrames := []\<rparr>, [])"
    by (simp add: DisplayFrame_onPresent_def Let_def ex_display_simps ex_predictions_def
        ex_thresholds_def ex_fps60_def rem_nsecs_def)
  show ?thesis
    by (simp add: eq SurfaceFlingerScheduling_def JankType_Unknown_def)
qed

section \<open>FrameTimeline: pending fences, history, resize\<close>

lemma pop_older_drop:
  "0 < mx \<Longrightarrow> pop_older mx xs = Inr (drop (Suc (length xs) - mx) xs)"
proof (induction xs)
  case Nil
  then show ?case by simp
next
  case (Cons x xs)
  show ?case
  proof (cases "mx \<le> length (x # xs)")
    case True
    then have "Suc (length (x # xs)) - mx = Suc (Suc (length xs) - mx)" by simp
    with True Cons show ?thesis by simp
  next
    case False
    then show ?thesis by simp
  qed
qed

lemma pop_older_zero: "pop_older 0 xs = Inl PopFrontOnEmpty"
  by (induction xs) simp_all

lemma pop_older_Inr: "pop_older mx xs = Inr ys \<Longrightarrow> ys = drop (Suc (length xs) - mx) xs"
  by (cases "mx = 0") (simp_all add: pop_older_zero pop_older_drop)

text \<open>What one run of the flush loop does to the queue, the trace calls and the store.\<close>

lemma flush_loop_effect:
  "flush_loop fences q ft = Inr (kept, ft') \<Longrightarrow>
   kept = filter (still_pending fences) q \<and>
   mTraced ft' = mTraced ft @ map snd (filter (resolved fences) q) \<and>
   (\<forall>a. a \<notin> snd ` set q \<longrightarrow> frames ft' a = frames ft a) \<and>
   nextFrame ft' = nextFrame ft \<and> mCurrentDisplayFrame ft' = mCurrentDisplayFrame ft \<and>
   mDisplayFrames ft' = mDisplayFrames ft \<and> mMaxDisplayFrames ft' = mMaxDisplayFrames ft \<and>
   mPendingPresentFences ft' = mPendingPresentFences ft \<and>
   mJankClassificationThresholds_ft ft' = mJankClassificationThresholds_ft ft \<and>
   mTokenManager ft' = mTokenManager ft"
proof (induction q arbitrary: ft kept ft')
  case Nil
  then show ?case by simp
next
  case (Cons entry q)
  obtain fence a where entry: "entry = (fence, a)" by (cases entry)
  show ?case
  proof (cases "still_pending fences (fence, a)")
    case True
    then obtain f where f: "fence = Some f" "isValid (fences f)"
        "getSignalTime (fences f) = SIGNAL_TIME_PENDING"
      by (cases fence) auto
    from Cons.prems entry f obtain kept0 where
      rec: "flush_loop fences q ft = Inr (kept0, ft')" and k: "kept = (fence, a) # kept0"
      by (auto split: sum.splits)
    have nr: "\<not> resolved fences (fence, a)" using f by simp
    from Cons.IH[OF rec] k True nr entry show ?thesis by simp
  next
    case False
    show ?thesis
    proof (cases "resolved fences (fence, a)")
      case True
      then obtain f where f: "fence = Some f" "isValid (fences f)"
          "getSignalTime (fences f) \<noteq> SIGNAL_TIME_PENDING"
          "getSignalTime (fences f) \<noteq> SIGNAL_TIME_INVALID"
        by (cases fence) auto
      from Cons.prems entry f obtain d' outs where
        cl: "DisplayFrame_onPresent (getSignalTime (fences f)) (frames ft a) = Inr (d', outs)"
        and rec: "flush_loop fences q
                    (ft\<lparr>frames := (frames ft)(a := d'),
                        mTimeStats := mTimeStats ft @ outs,
                        mTraced := mTraced ft @ [a]\<rparr>) = Inr (kept, ft')"
        by (auto split: sum.splits)
      from Cons.IH[OF rec] False True entry show ?thesis by auto
    next
      case nres: False
      have rec: "flush_loop fences q ft = Inr (kept, ft')"
      proof (cases fence)
        case None
        with Cons.prems entry show ?thesis by simp
      next
        case (Some f)
        with Cons.prems entry False nres show ?thesis
          by (auto split: if_splits)
      qed
      from Cons.IH[OF rec] False nres entry show ?thesis by simp
    qed
  qed
qed


lemma finalize_effect:
  "finalizeCurrentDisplayFrame ft = Inr ft' \<Longrightarrow>
   mDisplayFrames ft' =
     drop (Suc (length (mDisplayFrames ft)) - unat (mMaxDisplayFrames ft)) (mDisplayFrames ft)
       @ [mCurrentDisplayFrame ft] \<and>
   mCurrentDisplayFrame ft' = nextFrame ft \<and> nextFrame ft' = Suc (nextFrame ft) \<and>
   frames ft' = (frames ft)
     (nextFrame ft := DisplayFrame_new (mJankClassificationThresholds_ft ft)) \<and>
   mPendingPresentFences ft' = mPendingPresentFences ft \<and> mTraced ft' = mTraced ft \<and>
   mMaxDisplayFrames ft' = mMaxDisplayFrames ft \<and>
   mJankClassificationThresholds_ft ft' = mJankClassificationThresholds_ft ft"
  by (auto simp: finalizeCurrentDisplayFrame_def split: sum.splits dest: pop_older_Inr)

lemma setSfPresent_effect:
  assumes "setSfPresent t fence fences ft = Inr ft'"
  shows "mDisplayFrames ft' =
           drop (Suc (length (mDisplayFrames ft)) - unat (mMaxDisplayFrames ft))
             (mDisplayFrames ft) @ [mCurrentDisplayFrame ft]"
    and "mPendingPresentFences ft' =
           filter (still_pending fences)
             (mPendingPresentFences ft @ [(fence, mCurrentDisplayFrame ft)])"
    and "mTraced ft' = mTraced ft @
           map snd (filter (resolved fences)
             (mPendingPresentFences ft @ [(fence, mCurrentDisplayFrame ft)]))"
    and "mCurrentDisplayFrame ft' = nextFrame ft" and "nextFrame ft' = Suc (nextFrame ft)"
    and "mMaxDisplayFrames ft' = mMaxDisplayFrames ft"
    and "\<And>a. a \<notin> snd ` set (mPendingPresentFences ft) \<Longrightarrow> a \<noteq> mCurrentDisplayFrame ft \<Longrightarrow>
           a \<noteq> nextFrame ft \<Longrightarrow> frames ft' a = frames ft a"
proof -
  let ?c = "mCurrentDisplayFrame ft"
  let ?ft2 = "ft\<lparr>frames := (frames ft)(?c := setActualEndTime t (frames ft ?c)),
                 mPendingPresentFences := mPendingPresentFences ft @ [(fence, ?c)]\<rparr>"
  from assms obtain ft3 where
    fl: "flushPendingPresentFences fences ?ft2 = Inr ft3"
    and fin: "finalizeCurrentDisplayFrame ft3 = Inr ft'"
    by (auto simp: setSfPresent_def Let_def split: sum.splits)
  from fl obtain kept ft3' where
    loop: "flush_loop fences (mPendingPresentFences ft @ [(fence, ?c)]) ?ft2 = Inr (kept, ft3')"
    and ft3: "ft3 = ft3'\<lparr>mPendingPresentFences := kept\<rparr>"
    by (auto simp: flushPendingPresentFences_def split: sum.splits)
  note e = flush_loop_effect[OF loop]
  note f = finalize_effect[OF fin]
  show "mDisplayFrames ft' =
           drop (Suc (length (mDisplayFrames ft)) - unat (mMaxDisplayFrames ft))
             (mDisplayFrames ft) @ [mCurrentDisplayFrame ft]"
    using e f ft3 by simp
  show "mPendingPresentFences ft' =
           filter (still_pending fences)
             (mPendingPresentFences ft @ [(fence, mCurrentDisplayFrame ft)])"
    using e f ft3 by simp
  show "mTraced ft' = mTraced ft @
           map snd (filter (resolved fences)
             (mPendingPresentFences ft @ [(fence, mCurrentDisplayFrame ft)]))"
    using e f ft3 by simp
  show "mCurrentDisplayFrame ft' = nextFrame ft" using e f ft3 by simp
  show "nextFrame ft' = Suc (nextFrame ft)" using e f ft3 by simp
  show "mMaxDisplayFrames ft' = mMaxDisplayFrames ft" using e f ft3 by simp
  show "frames ft' a = frames ft a"
    if "a \<notin> snd ` set (mPendingPresentFences ft)" "a \<noteq> mCurrentDisplayFrame ft"
      "a \<noteq> nextFrame ft" for a
  proof -
    have "a \<notin> snd ` set (mPendingPresentFences ft @ [(fence, ?c)])"
      using that by auto
    then have "frames ft3' a = frames ?ft2 a"
      using e by blast
    then show ?thesis
      using that f ft3 e by simp
  qed
qed


lemma ft_inv_run_call:
  assumes "ft_inv ft" "run_call W c ft = Inr ft'"
  shows "ft_inv ft'"
proof (cases c)
  case (SetSfPresent t fence fences)
  with assms(2) have p: "setSfPresent t fence fences ft = Inr ft'" by simp
  note e = setSfPresent_effect[OF p]
  show ?thesis
    using assms(1) unfolding ft_inv_def e(1,2,4,5) list_all_iff
    by (auto dest!: in_set_dropD)
qed (use assms in \<open>auto simp: ft_inv_def addSurfaceFrame_def setSfWakeUp_def
      setMaxDisplayFrames_def\<close>)

lemma ft_inv_run_calls:
  "ft_inv ft \<Longrightarrow> run_calls W cs ft = Inr ft' \<Longrightarrow> ft_inv ft'"
proof (induction cs arbitrary: ft)
  case Nil
  then show ?case by simp
next
  case (Cons c cs)
  from Cons.prems(2) obtain ft1 where
    c: "run_call W c ft = Inr ft1" and cs: "run_calls W cs ft1 = Inr ft'"
    by (auto split: sum.splits)
  from Cons.IH[OF ft_inv_run_call[OF Cons.prems(1) c] cs] show ?case .
qed






lemma ex_first_pending_run:
  "run_calls 120000000 ex_first_pending ex_timeline =
     Inr \<lparr>frames = (\<lambda>a. DisplayFrame_new ex_thresholds)
            (0 := setActualEndTime 10000000
                    (onSfWakeUp 0 ex_fps60 (Some ex_predictions) 0
                       (DisplayFrame_new ex_thresholds)),
             Suc 0 := DisplayFrame_new ex_thresholds),
          nextFrame = 2, mMaxDisplayFrames = 64, mDisplayFrames = [0],
          mPendingPresentFences = [(Some 0, 0)], mCurrentDisplayFrame = 1,
          mTokenManager = snd (generateTokenForPredictions 120000000 0 0 ex_predictions ex_tm),
          mJankClassificationThresholds_ft = ex_thresholds, mTimeStats = [], mTraced = []\<rparr>"
  by (simp add: ex_first_pending_def ex_timeline_def FrameTimeline_new_def setSfWakeUp_def
      setSfPresent_def flushPendingPresentFences_def finalizeCurrentDisplayFrame_def
      pop_older_drop Let_def ex_fences_pending_def SIGNAL_TIME_PENDING_def
      getPredictionsForToken_def generateTokenForPredictions_def ex_tm_def)

lemma ex_pending_state_eq:
  "ex_pending_state =
     \<lparr>frames = (\<lambda>a. DisplayFrame_new ex_thresholds)
            (0 := setActualEndTime 10000000
                    (onSfWakeUp 0 ex_fps60 (Some ex_predictions) 0
                       (DisplayFrame_new ex_thresholds)),
             Suc 0 := DisplayFrame_new ex_thresholds),
          nextFrame = 2, mMaxDisplayFrames = 64, mDisplayFrames = [0],
          mPendingPresentFences = [(Some 0, 0)], mCurrentDisplayFrame = 1,
          mTokenManager = snd (generateTokenForPredictions 120000000 0 0 ex_predictions ex_tm),
          mJankClassificationThresholds_ft = ex_thresholds, mTimeStats = [], mTraced = []\<rparr>"
  by (simp add: ex_pending_state_def ex_first_pending_run)


lemmas ex_run_defs =
  ex_timeline_def FrameTimeline_new_def setSfWakeUp_def setSfPresent_def addSurfaceFrame_def
  flushPendingPresentFences_def finalizeCurrentDisplayFrame_def pop_older_drop Let_def
  SIGNAL_TIME_PENDING_def SIGNAL_TIME_INVALID_def getPredictionsForToken_def
  generateTokenForPredictions_def ex_tm_def DisplayFrame_onPresent_def onSfWakeUp_def
  setActualEndTime_def DisplayFrame_new_def DisplayFrame_defaults_def
  DisplayFrame_addSurfaceFrame_def rem_nsecs_def ex_fps60_def ex_thresholds_def Fps_default_def




section \<open>History depth\<close>

lemma finalized_step:
  assumes "mCurrentDisplayFrame ft' = nextFrame ft" "nextFrame ft' = Suc (nextFrame ft)"
  shows "finalized (Suc n) ft = mCurrentDisplayFrame ft # finalized n ft'"
  using assms by (cases n) (simp_all add: upt_conv_Cons)

lemma length_finalized: "length (finalized n ft) = n"
  by (cases n) simp_all

lemma fifo_step:
  assumes "0 < d" "length h \<le> d"
  shows "drop (length (drop (Suc (length h) - d) h @ [c]) + n - d)
           ((drop (Suc (length h) - d) h @ [c]) @ F) =
         drop (length h + Suc n - d) (h @ c # F)"
proof (cases "length h < d")
  case True
  then have "Suc (length h) - d = 0" by simp
  then show ?thesis by simp
next
  case False
  with assms have eq: "length h = d" by simp
  then have k: "Suc (length h) - d = Suc 0" by simp
  have ne: "h \<noteq> []" using eq assms(1) by auto
  have l: "length (drop (Suc 0) h @ [c]) = d" using eq ne by (cases h) auto
  have "drop (Suc n) (h @ c # F) = drop n (drop (Suc 0) h @ c # F)"
    using ne by (cases h) simp_all
  then show ?thesis
    unfolding k l using eq by simp
qed

text \<open>
  With a depth of at least one and a history no longer than the depth, \<open>n\<close> finalizations
  return and leave the last \<open>depth\<close> entries of the old history followed by the finalized
  frames, in order.
\<close>

lemma finalize_times_fifo:
  "0 < unat (mMaxDisplayFrames ft) \<Longrightarrow> length (mDisplayFrames ft) \<le> unat (mMaxDisplayFrames ft) \<Longrightarrow>
   \<exists>ft'. finalize_times n ft = Inr ft' \<and>
     mDisplayFrames ft' =
       drop (length (mDisplayFrames ft) + n - unat (mMaxDisplayFrames ft))
         (mDisplayFrames ft @ finalized n ft)"
proof (induction n arbitrary: ft)
  case 0
  then show ?case by simp
next
  case (Suc n)
  let ?d = "unat (mMaxDisplayFrames ft)"
  let ?h = "mDisplayFrames ft"
  let ?c = "mCurrentDisplayFrame ft"
  let ?h1 = "drop (Suc (length ?h) - ?d) ?h @ [?c]"
  obtain ft1 where fin: "finalizeCurrentDisplayFrame ft = Inr ft1"
    using Suc.prems(1) by (simp add: finalizeCurrentDisplayFrame_def pop_older_drop)
  note f = finalize_effect[OF fin]
  have h1: "mDisplayFrames ft1 = ?h1"
    using f by simp
  have mx: "mMaxDisplayFrames ft1 = mMaxDisplayFrames ft"
    using f by simp
  have d1: "0 < unat (mMaxDisplayFrames ft1)"
      "length (mDisplayFrames ft1) \<le> unat (mMaxDisplayFrames ft1)"
    using Suc.prems unfolding h1 mx by auto
  from Suc.IH[OF d1] obtain ft' where
    run: "finalize_times n ft1 = Inr ft'"
    and hist: "mDisplayFrames ft' =
       drop (length ?h1 + n - ?d) (?h1 @ finalized n ft1)"
    unfolding h1 mx by blast
  have step: "finalized (Suc n) ft = ?c # finalized n ft1"
    using finalized_step[of ft1 ft n] f by simp
  have "mDisplayFrames ft' = drop (length ?h + Suc n - ?d) (?h @ ?c # finalized n ft1)"
    unfolding hist using fifo_step[OF Suc.prems] .
  then show ?case
    using fin run step by simp
qed

lemma history_fifo:
  assumes "0 < unat d"
  shows "\<exists>ft'. finalize_times n (setMaxDisplayFrames d ft) = Inr ft' \<and>
     mDisplayFrames ft' = drop (n - unat d) (finalized n (setMaxDisplayFrames d ft)) \<and>
     length (mDisplayFrames ft') = min n (unat d)"
proof -
  let ?ft = "setMaxDisplayFrames d ft"
  have a: "0 < unat (mMaxDisplayFrames ?ft)" "length (mDisplayFrames ?ft) \<le> unat (mMaxDisplayFrames ?ft)"
    using assms by (simp_all add: setMaxDisplayFrames_def)
  from finalize_times_fifo[OF a, of n] obtain ft' where
    r: "finalize_times n ?ft = Inr ft'"
    and h: "mDisplayFrames ft' = drop (n - unat d) (finalized n ?ft)"
    by (auto simp: setMaxDisplayFrames_def)
  have "length (mDisplayFrames ft') = min n (unat d)"
    using h by (simp add: length_finalized)
  with r h show ?thesis by blast
qed

text \<open>
  C8 at depth 0: the first finalization after \<^verbatim>\<open>setMaxDisplayFrames(0)\<close> finds
  \<^verbatim>\<open>size() >= 0\<close> true on the empty history and calls \<^verbatim>\<open>pop_front\<close> on it, so no
  \<^verbatim>\<open>setSfPresent\<close> returns and no history is produced; the claim asks for the empty
  history. For every depth of at least one the history is the FIFO the claim describes
  (\<open>history_fifo\<close>).
\<close>

theorem history_depth_zero:
  "isl (setSfPresent t fence fences (setMaxDisplayFrames 0 ft)) \<and>
   setSfPresent t None fences (setMaxDisplayFrames 0 ft) = Inl PopFrontOnEmpty \<and>
   finalize_times (Suc n) (setMaxDisplayFrames 0 ft) = Inl PopFrontOnEmpty"
proof (intro conjI)
  let ?ft = "setMaxDisplayFrames 0 ft"
  let ?c = "mCurrentDisplayFrame ?ft"
  let ?ft2 = "?ft\<lparr>frames := (frames ?ft)(?c := setActualEndTime t (frames ?ft ?c)),
                 mPendingPresentFences := mPendingPresentFences ?ft @ [(fence, ?c)]\<rparr>"
  show "isl (setSfPresent t fence fences ?ft)"
  proof (cases "flush_loop fences (mPendingPresentFences ?ft2) ?ft2")
    case (Inl e)
    then show ?thesis
      by (simp add: setSfPresent_def flushPendingPresentFences_def Let_def)
  next
    case (Inr r)
    obtain kept ft3 where r: "r = (kept, ft3)" by (cases r)
    have "mMaxDisplayFrames ft3 = 0"
      using flush_loop_effect[OF Inr[unfolded r]] by (simp add: setMaxDisplayFrames_def)
    then have "finalizeCurrentDisplayFrame (ft3\<lparr>mPendingPresentFences := kept\<rparr>)
                 = Inl PopFrontOnEmpty"
      by (simp add: finalizeCurrentDisplayFrame_def pop_older_zero)
    then show ?thesis
      using Inr r by (simp add: setSfPresent_def flushPendingPresentFences_def Let_def)
  qed
qed (simp_all add: setSfPresent_def setMaxDisplayFrames_def flushPendingPresentFences_def
      finalizeCurrentDisplayFrame_def pop_older_zero Let_def)

section \<open>Resize\<close>

lemma run_call_discarded:
  assumes "run_call W c ft = Inr ft'"
    and "a < nextFrame ft" "a \<noteq> mCurrentDisplayFrame ft" "a \<notin> set (mDisplayFrames ft)"
    and "a \<notin> snd ` set (mPendingPresentFences ft)"
    and "frames ft a = F" "mTraced ft = T @ new" "a \<notin> set new"
  shows "a < nextFrame ft' \<and> a \<noteq> mCurrentDisplayFrame ft' \<and> a \<notin> set (mDisplayFrames ft') \<and>
     a \<notin> snd ` set (mPendingPresentFences ft') \<and> frames ft' a = F \<and>
     (\<exists>new'. mTraced ft' = T @ new' \<and> a \<notin> set new')"
proof (cases c)
  case (AddSurfaceFrame sf)
  with assms show ?thesis by (auto simp: addSurfaceFrame_def)
next
  case (SetSfWakeUp token wakeUpTime r)
  with assms show ?thesis by (auto simp: setSfWakeUp_def)
next
  case (SetSfPresent t fence fences)
  with assms(1) have p: "setSfPresent t fence fences ft = Inr ft'" by simp
  note e = setSfPresent_effect[OF p]
  have fr: "frames ft' a = F"
    using e(7)[of a] assms by simp
  have h: "a \<notin> set (mDisplayFrames ft')"
    using e(1) assms by (auto dest: in_set_dropD)
  have q: "a \<notin> snd ` set (mPendingPresentFences ft')"
    using e(2) assms by auto
  have "mTraced ft' = T @ (new @ map snd (filter (resolved fences)
             (mPendingPresentFences ft @ [(fence, mCurrentDisplayFrame ft)])))"
    using e(3) assms by simp
  moreover have "a \<notin> set (new @ map snd (filter (resolved fences)
             (mPendingPresentFences ft @ [(fence, mCurrentDisplayFrame ft)])))"
    using assms by auto
  ultimately have tr: "\<exists>new'. mTraced ft' = T @ new' \<and> a \<notin> set new'"
    by blast
  show ?thesis
    using fr h q tr e(4,5) assms by simp
next
  case (SetMaxDisplayFrames n)
  with assms show ?thesis by (auto simp: setMaxDisplayFrames_def)
next
  case (GenerateToken p now1 now2)
  with assms show ?thesis by auto
qed

lemma run_calls_discarded:
  "run_calls W cs ft = Inr ft' \<Longrightarrow>
   a < nextFrame ft \<Longrightarrow> a \<noteq> mCurrentDisplayFrame ft \<Longrightarrow> a \<notin> set (mDisplayFrames ft) \<Longrightarrow>
   a \<notin> snd ` set (mPendingPresentFences ft) \<Longrightarrow>
   frames ft a = F \<Longrightarrow> mTraced ft = T @ new \<Longrightarrow> a \<notin> set new \<Longrightarrow>
   a \<notin> set (mDisplayFrames ft') \<and> a \<notin> snd ` set (mPendingPresentFences ft') \<and>
   frames ft' a = F \<and> (\<exists>new'. mTraced ft' = T @ new' \<and> a \<notin> set new')"
proof (induction cs arbitrary: ft new)
  case Nil
  then show ?case by auto
next
  case (Cons c cs)
  from Cons.prems(1) obtain ft1 where
    c: "run_call W c ft = Inr ft1" and cs: "run_calls W cs ft1 = Inr ft'"
    by (auto split: sum.splits)
  from run_call_discarded[OF c Cons.prems(2-8)] obtain new' where
    s: "a < nextFrame ft1" "a \<noteq> mCurrentDisplayFrame ft1" "a \<notin> set (mDisplayFrames ft1)"
      "a \<notin> snd ` set (mPendingPresentFences ft1)" "frames ft1 a = F"
      "mTraced ft1 = T @ new'" "a \<notin> set new'"
    by blast
  from Cons.IH[OF cs s] show ?case .
qed

text \<open>The address invariant holds initially and every call keeps it.\<close>

text \<open>
  C10. \<^verbatim>\<open>setMaxDisplayFrames\<close> leaves the history and the pending queue empty and stores
  the new size. A display frame that was waiting in the queue at that moment is dropped for
  good: whatever calls follow, its record stays as it was, no trace call is made for it, and
  it is neither queued again nor in the history.
\<close>

theorem resize_clears:
  "mDisplayFrames (setMaxDisplayFrames size' ft) = [] \<and>
   mPendingPresentFences (setMaxDisplayFrames size' ft) = [] \<and>
   mMaxDisplayFrames (setMaxDisplayFrames size' ft) = size' \<and>
   (ft_inv ft \<longrightarrow> (fence, a) \<in> set (mPendingPresentFences ft) \<longrightarrow>
    run_calls W cs (setMaxDisplayFrames size' ft) = Inr ft' \<longrightarrow>
      frames ft' a = frames ft a \<and> a \<notin> set (mDisplayFrames ft') \<and>
      a \<notin> snd ` set (mPendingPresentFences ft') \<and>
      (\<exists>new. mTraced ft' = mTraced ft @ new \<and> a \<notin> set new))"
proof (intro conjI impI)
  assume inv: "ft_inv ft" and q: "(fence, a) \<in> set (mPendingPresentFences ft)"
    and run: "run_calls W cs (setMaxDisplayFrames size' ft) = Inr ft'"
  let ?ft = "setMaxDisplayFrames size' ft"
  have a: "a < nextFrame ?ft" "a \<noteq> mCurrentDisplayFrame ?ft"
    using inv q by (auto simp: ft_inv_def list_all_iff setMaxDisplayFrames_def)
  have b: "a \<notin> set (mDisplayFrames ?ft)" "a \<notin> snd ` set (mPendingPresentFences ?ft)"
      "frames ?ft a = frames ft a" "mTraced ?ft = mTraced ft @ []" "a \<notin> set []"
    by (simp_all add: setMaxDisplayFrames_def)
  from run_calls_discarded[OF run a b]
  show "frames ft' a = frames ft a" "a \<notin> set (mDisplayFrames ft')"
    "a \<notin> snd ` set (mPendingPresentFences ft')"
    "\<exists>new. mTraced ft' = mTraced ft @ new \<and> a \<notin> set new"
    by blast+
qed (simp_all add: setMaxDisplayFrames_def)

theorem resize_clears_witness:
  "ft_inv ex_pending_state \<and> (Some 0, 0) \<in> set (mPendingPresentFences ex_pending_state) \<and>
   \<not> isl (run_calls 120000000 ex_resize_calls (setMaxDisplayFrames 3 ex_pending_state)) \<and>
   frames (projr (run_calls 120000000 ex_resize_calls (setMaxDisplayFrames 3 ex_pending_state))) 0
     = frames ex_pending_state 0 \<and>
   0 \<notin> set (mDisplayFrames
       (projr (run_calls 120000000 ex_resize_calls (setMaxDisplayFrames 3 ex_pending_state)))) \<and>
   0 \<notin> snd ` set (mPendingPresentFences
       (projr (run_calls 120000000 ex_resize_calls (setMaxDisplayFrames 3 ex_pending_state))))"
proof -
  have inv: "ft_inv ex_pending_state"
    by (simp add: ft_inv_def ex_pending_state_eq)
  have q: "(Some 0, 0) \<in> set (mPendingPresentFences ex_pending_state)"
    by (simp add: ex_pending_state_eq)
  have r: "\<not> isl (run_calls 120000000 ex_resize_calls (setMaxDisplayFrames 3 ex_pending_state))"
    by (simp add: ex_resize_calls_def setMaxDisplayFrames_def ex_pending_state_eq
        setSfWakeUp_def setSfPresent_def flushPendingPresentFences_def
        finalizeCurrentDisplayFrame_def pop_older_drop Let_def ex_fences_signalled_def
        SIGNAL_TIME_PENDING_def SIGNAL_TIME_INVALID_def getPredictionsForToken_def
        generateTokenForPredictions_def ex_tm_def DisplayFrame_onPresent_def onSfWakeUp_def
        setActualEndTime_def DisplayFrame_new_def DisplayFrame_defaults_def rem_nsecs_def ex_fps60_def
        ex_thresholds_def ex_predictions_def Fps_default_def)
  then have e: "run_calls 120000000 ex_resize_calls (setMaxDisplayFrames 3 ex_pending_state) =
      Inr (projr (run_calls 120000000 ex_resize_calls (setMaxDisplayFrames 3 ex_pending_state)))"
    by (cases "run_calls 120000000 ex_resize_calls (setMaxDisplayFrames 3 ex_pending_state)") auto
  from resize_clears[where ft = ex_pending_state and size' = 3, THEN conjunct2, THEN conjunct2,
      THEN conjunct2, rule_format, OF inv q e]
  show ?thesis
    using inv q r by blast
qed

section \<open>Base time of a dump\<close>

lemma consulted_times_nonempty: "consulted_times ps p a \<noteq> []"
  by (simp add: consulted_times_def)

lemma getMinTime_Min:
  assumes "end_before_present a"
  shows "getMinTime ps p a = Min (set (consulted_times ps p a))"
  using assms
  by (auto simp: getMinTime_def consulted_times_def end_before_present_def Let_def
      min.commute min.left_commute)

lemma Min_set_min:
  assumes "xs \<noteq> []"
  shows "Min (set (min acc (Min (set xs)) # ys)) = Min (set (acc # xs @ ys))"
proof -
  have "Min (set (acc # xs @ ys)) = Min (insert acc (set xs \<union> set ys))"
    by simp
  also have "\<dots> = Min (insert (min acc (Min (set xs))) (set ys))"
  proof (cases "ys = []")
    case True
    with assms show ?thesis by (simp add: Min_insert min.commute)
  next
    case False
    with assms show ?thesis
      by (simp add: Min_insert Min.union min.assoc)
  qed
  finally show ?thesis by simp
qed

lemma Min_set_drop_acc:
  "xs \<noteq> [] \<Longrightarrow> Min (set (Min (set xs) # ys)) = Min (set (xs @ ys))"
proof -
  assume ne: "xs \<noteq> []"
  show ?thesis
  proof (cases "ys = []")
    case True
    then show ?thesis by simp
  next
    case False
    with ne show ?thesis by (simp add: Min_insert Min.union)
  qed
qed

lemma fold_baseTime_Min:
  assumes "\<forall>sf \<in> set sfs. end_before_present (mActuals sf)"
  shows "fold (\<lambda>surfaceFrame baseTime.
                let surfaceFrameBaseTime = SurfaceFrame_getBaseTime surfaceFrame
                in if surfaceFrameBaseTime \<noteq> 0 then min baseTime surfaceFrameBaseTime
                   else baseTime) sfs acc =
         Min (set (acc #
           concat (map (\<lambda>sf. let ts = consulted_times (mPredictionState sf) (mPredictions sf)
                                       (mActuals sf)
                            in if Min (set ts) \<noteq> 0 then ts else []) sfs)))"
    (is "fold ?step sfs acc = Min (set (acc # concat (map ?g sfs)))")
  using assms
proof (induction sfs arbitrary: acc)
  case Nil
  then show ?case by simp
next
  case (Cons sf sfs)
  let ?ts = "consulted_times (mPredictionState sf) (mPredictions sf) (mActuals sf)"
  let ?rest = "concat (map ?g sfs)"
  have b: "SurfaceFrame_getBaseTime sf = Min (set ?ts)"
    using Cons.prems by (simp add: SurfaceFrame_getBaseTime_def getMinTime_Min)
  have ih: "\<forall>sf \<in> set sfs. end_before_present (mActuals sf)"
    using Cons.prems by simp
  show ?case
  proof (cases "Min (set ?ts) = 0")
    case True
    have "fold ?step (sf # sfs) acc = fold ?step sfs acc"
      using b True by (simp add: Let_def)
    also have "\<dots> = Min (set (acc # ?rest))"
      using Cons.IH[OF ih] .
    also have "acc # ?rest = acc # concat (map ?g (sf # sfs))"
      using True by (simp add: Let_def)
    finally show ?thesis .
  next
    case False
    have "fold ?step (sf # sfs) acc = fold ?step sfs (min acc (Min (set ?ts)))"
      using b False by (simp add: Let_def)
    also have "\<dots> = Min (set (min acc (Min (set ?ts)) # ?rest))"
      using Cons.IH[OF ih] .
    also have "\<dots> = Min (set (acc # ?ts @ ?rest))"
      using Min_set_min[OF consulted_times_nonempty] .
    also have "acc # ?ts @ ?rest = acc # concat (map ?g (sf # sfs))"
      using False by (simp add: Let_def)
    finally show ?thesis .
  qed
qed

lemma DisplayFrame_getBaseTime_Min:
  assumes "end_before_present (mSurfaceFlingerActuals d)"
    "\<forall>sf \<in> set (mSurfaceFrames d). end_before_present (mActuals sf)"
  shows "DisplayFrame_getBaseTime d = Min (set (consulted_times_df d))"
proof -
  let ?cd = "consulted_times (mPredictionState_df d) (mSurfaceFlingerPredictions d)
               (mSurfaceFlingerActuals d)"
  let ?rest = "concat (map (\<lambda>sf. let ts = consulted_times (mPredictionState sf)
                                             (mPredictions sf) (mActuals sf)
                                  in if Min (set ts) \<noteq> 0 then ts else [])
                        (mSurfaceFrames d))"
  have "DisplayFrame_getBaseTime d = Min (set (Min (set ?cd) # ?rest))"
    unfolding DisplayFrame_getBaseTime_def fold_baseTime_Min[OF assms(2)]
      getMinTime_Min[OF assms(1)] ..
  also have "\<dots> = Min (set (?cd @ ?rest))"
    using Min_set_drop_acc[OF consulted_times_nonempty] .
  finally show ?thesis
    unfolding consulted_times_df_def .
qed

lemma and_not_bit: "(j :: 32 word) AND b = 0 \<Longrightarrow> j AND NOT b = j"
  by (simp add: bit_eq_iff bit_and_iff bit_not_iff) blast

lemma fst_fold_jank:
  "fst (fold (\<lambda>(bit, name') (j, janks).
                if j AND bit \<noteq> 0 then (j AND NOT bit, janks @ [name']) else (j, janks))
          bits (j0 :: 32 word, l)) =
   fold (\<lambda>(bit, name') j. j AND NOT bit) bits j0"
proof (induction bits arbitrary: j0 l)
  case Nil
  then show ?case by simp
next
  case (Cons b bits)
  obtain bit' name' where b: "b = (bit', name')" by (cases b)
  show ?case
  proof (cases "j0 AND bit' = 0")
    case True
    then have "j0 AND NOT bit' = j0" by (rule and_not_bit)
    with True show ?thesis by (simp add: b Cons.IH)
  next
    case False
    then show ?thesis by (simp add: b Cons.IH)
  qed
qed

lemma jank_names_rest: "fst (jank_names j) = j AND NOT 255"
proof -
  have "(NOT 1 AND NOT 2 AND NOT 4 AND NOT 8 AND NOT 16 AND NOT 32 AND NOT 64 AND NOT 128
          :: 32 word) = NOT 255"
    by simp
  then show ?thesis
    unfolding jank_names_def fst_fold_jank
    by (simp add: DisplayHAL_def SurfaceFlingerCpuDeadlineMissed_def
        SurfaceFlingerGpuDeadlineMissed_def AppDeadlineMissed_def PredictionError_def
        SurfaceFlingerScheduling_def BufferStuffing_def JankType_Unknown_def and.assoc)
qed

text \<open>The decoding aborts exactly on a bit outside the eight causes.\<close>

lemma jankTypeBitmaskToString_returns:
  "isl (jankTypeBitmaskToString j) \<longleftrightarrow> j AND NOT 255 \<noteq> 0"
proof (cases "j = JankType_None")
  case True
  then show ?thesis by (simp add: jankTypeBitmaskToString_def JankType_None_def)
next
  case False
  obtain rest janks where r: "jank_names j = (rest, janks)" by (cases "jank_names j")
  then have "rest = j AND NOT 255" using jank_names_rest[of j] by simp
  with r False show ?thesis by (simp add: jankTypeBitmaskToString_def)
qed

lemma dump_each_effect:
  "dump_each b sfs = Inr ss \<Longrightarrow>
   map ds_table ss = map (\<lambda>sf. dumpTable (mPredictions sf) (mActuals sf) (mPredictionState sf) b) sfs
   \<and> map ds_latch ss = map (\<lambda>sf. max 0 (mLastLatchTime sf - b)) sfs"
proof (induction sfs arbitrary: ss)
  case Nil
  then show ?case by simp
next
  case (Cons sf sfs)
  from Cons.prems obtain s ss0 where
    h: "SurfaceFrame_dump sf b = Inr s" and r: "dump_each b sfs = Inr ss0" and ss: "ss = s # ss0"
    by (auto split: sum.splits)
  from h have "ds_table s = dumpTable (mPredictions sf) (mActuals sf) (mPredictionState sf) b"
      "ds_latch s = max 0 (mLastLatchTime sf - b)"
    by (auto simp: SurfaceFrame_dump_def split: sum.splits)
  with Cons.IH[OF r] ss show ?case by simp
qed

lemma dump_each_returns:
  "\<forall>sf \<in> set sfs. known_causes (mJankType sf) \<Longrightarrow> \<exists>ss. dump_each b sfs = Inr ss"
proof (induction sfs)
  case Nil
  then show ?case by simp
next
  case (Cons sf sfs)
  have "\<not> isl (jankTypeBitmaskToString (mJankType sf))"
    using Cons.prems by (simp add: jankTypeBitmaskToString_returns known_causes_def)
  then obtain js where "jankTypeBitmaskToString (mJankType sf) = Inr js"
    by (cases "jankTypeBitmaskToString (mJankType sf)") auto
  then obtain s where "SurfaceFrame_dump sf b = Inr s"
    by (simp add: SurfaceFrame_dump_def)
  moreover obtain ss where "dump_each b sfs = Inr ss"
    using Cons by auto
  ultimately show ?case by simp
qed

lemma DisplayFrame_dump_effect:
  assumes "DisplayFrame_dump d b = Inr dd"
  shows "dd_table dd = dumpTable (mSurfaceFlingerPredictions d) (mSurfaceFlingerActuals d)
                         (mPredictionState_df d) b"
    and "map ds_table (dd_surfaces dd) =
           map (\<lambda>sf. dumpTable (mPredictions sf) (mActuals sf) (mPredictionState sf) b)
             (mSurfaceFrames d)"
    and "map ds_latch (dd_surfaces dd) =
           map (\<lambda>sf. max 0 (mLastLatchTime sf - b)) (mSurfaceFrames d)"
proof -
  from assms obtain ss where
    e: "dump_each b (mSurfaceFrames d) = Inr ss" and s: "dd_surfaces dd = ss"
    and t: "dd_table dd = dumpTable (mSurfaceFlingerPredictions d) (mSurfaceFlingerActuals d)
                         (mPredictionState_df d) b"
    by (auto simp: DisplayFrame_dump_def Let_def split: sum.splits)
  show "dd_table dd = dumpTable (mSurfaceFlingerPredictions d) (mSurfaceFlingerActuals d)
                         (mPredictionState_df d) b"
    by (rule t)
  show "map ds_table (dd_surfaces dd) =
           map (\<lambda>sf. dumpTable (mPredictions sf) (mActuals sf) (mPredictionState sf) b)
             (mSurfaceFrames d)"
    and "map ds_latch (dd_surfaces dd) =
           map (\<lambda>sf. max 0 (mLastLatchTime sf - b)) (mSurfaceFrames d)"
    using dump_each_effect[OF e] s by simp_all
qed

lemma DisplayFrame_dump_returns:
  assumes "dumpable d"
  shows "\<exists>dd. DisplayFrame_dump d b = Inr dd"
proof -
  have "\<not> isl (jankTypeBitmaskToString (mJankType_df d))"
    using assms by (simp add: jankTypeBitmaskToString_returns known_causes_def dumpable_def)
  then obtain js where j: "jankTypeBitmaskToString (mJankType_df d) = Inr js"
    by (cases "jankTypeBitmaskToString (mJankType_df d)") auto
  obtain ss where s: "dump_each b (mSurfaceFrames d) = Inr ss"
    using dump_each_returns[of "mSurfaceFrames d" b] assms
    by (auto simp: dumpable_def list_all_iff)
  have "getPeriodNsecs (mRefreshRate d) \<noteq> 0"
    using assms by (simp add: dumpable_def)
  then show ?thesis
    using j s by (simp add: DisplayFrame_dump_def Let_def rem_nsecs_abs)
qed

lemma dumpAll_each_effect:
  "dumpAll_each ft b as = Inr out \<Longrightarrow>
   length out = length as \<and>
   (\<forall>i < length as. DisplayFrame_dump (frames ft (as ! i)) b = Inr (out ! i))"
proof (induction as arbitrary: out)
  case Nil
  then show ?case by simp
next
  case (Cons a as)
  from Cons.prems obtain dd dds where
    h: "DisplayFrame_dump (frames ft a) b = Inr dd"
    and r: "dumpAll_each ft b as = Inr dds" and o: "out = dd # dds"
    by (auto split: sum.splits)
  from Cons.IH[OF r] h o show ?case
    by (auto simp: nth_Cons split: nat.splits)
qed

lemma dumpAll_each_returns:
  "\<forall>a \<in> set as. dumpable (frames ft a) \<Longrightarrow> \<exists>out. dumpAll_each ft b as = Inr out"
proof (induction as)
  case Nil
  then show ?case by simp
next
  case (Cons a as)
  obtain dd where "DisplayFrame_dump (frames ft a) b = Inr dd"
    using DisplayFrame_dump_returns[of "frames ft a" b] Cons.prems by auto
  moreover obtain out where "dumpAll_each ft b as = Inr out"
    using Cons by auto
  ultimately show ?case by simp
qed

lemma dumpJank_each_effect:
  "dumpJank_each ft b i as = Inr outs \<Longrightarrow>
   \<forall>(k, dd) \<in> set outs. i \<le> k \<and> k < i + length as \<and>
      DisplayFrame_dump (frames ft (as ! (k - i))) b = Inr dd"
proof (induction as arbitrary: i outs)
  case Nil
  then show ?case by simp
next
  case (Cons a as)
  from Cons.prems obtain r rs where
    h: "DisplayFrame_dumpJank (frames ft a) b = Inr r"
    and t: "dumpJank_each ft b (Suc i) as = Inr rs"
    and o: "outs = (case r of None \<Rightarrow> [] | Some dd \<Rightarrow> [(i, dd)]) @ rs"
    by (auto split: sum.splits)
  have hd: "DisplayFrame_dump (frames ft a) b = Inr dd" if "r = Some dd" for dd
    using h that by (auto simp: DisplayFrame_dumpJank_def split: if_splits sum.splits)
  have tl: "\<forall>(k, dd) \<in> set rs. i \<le> k \<and> k < i + length (a # as) \<and>
      DisplayFrame_dump (frames ft ((a # as) ! (k - i))) b = Inr dd"
  proof (clarify)
    fix k dd assume m: "(k, dd) \<in> set rs"
    with Cons.IH[OF t] have k: "Suc i \<le> k" "k < Suc i + length as"
      and d: "DisplayFrame_dump (frames ft (as ! (k - Suc i))) b = Inr dd"
      by auto
    from k have "k - i = Suc (k - Suc i)" by simp
    with k d show "i \<le> k \<and> k < i + length (a # as) \<and>
      DisplayFrame_dump (frames ft ((a # as) ! (k - i))) b = Inr dd"
      by simp
  qed
  show ?case
    unfolding o using tl hd by (cases r) auto
qed

lemma dumpJank_each_returns:
  "\<forall>a \<in> set as. dumpable (frames ft a) \<Longrightarrow> \<exists>outs. dumpJank_each ft b i as = Inr outs"
proof (induction as arbitrary: i)
  case Nil
  then show ?case by simp
next
  case (Cons a as)
  obtain dd where "DisplayFrame_dump (frames ft a) b = Inr dd"
    using DisplayFrame_dump_returns[of "frames ft a" b] Cons.prems by auto
  then have "\<exists>r. DisplayFrame_dumpJank (frames ft a) b = Inr r"
    by (simp add: DisplayFrame_dumpJank_def)
  then obtain r where "DisplayFrame_dumpJank (frames ft a) b = Inr r" ..
  moreover obtain outs where "dumpJank_each ft b (Suc i) as = Inr outs"
    using Cons.IH[of "Suc i"] Cons.prems by auto
  ultimately show ?case by simp
qed

text \<open>
  C4 (as amended). \<^verbatim>\<open>dumpAll\<close> and \<^verbatim>\<open>dumpJank\<close> take one base time for the whole dump
  and dump every display frame they print, with its surface frames, against that one base
  time. In each table the predicted start, end and present times (printed for valid
  predictions only) and the actual end time (printed when it is above zero) are the time
  less the base time; the actual start and present times (printed when they are not zero)
  are the time less the base time, or zero when that is negative; the last latch time of a
  surface frame is clamped at zero in the same way; every other actual cell is \<^verbatim>\<open>N/A\<close>.
  The base time is 0 for an empty history and otherwise the base time of the first display
  frame of the history alone: when, in that frame and its surface frames, the actual end
  time is set and not after the actual present time wherever the latter is set, it is the
  smallest of: the largest 64-bit time, the predicted start where the predictions are
  valid, and the actual start, end and present times that are not zero, over the display
  frame itself and over each of its surface frames whose own smallest time is not zero.
  Later display frames are not consulted, so a time of theirs may be before the base time.
  Both dumps return when every display frame of the history has a refresh period other
  than zero and only known causes in its jank bitmask and in those of its surface frames.
\<close>

theorem dump_base_time:
  "(dumpAll ft = Inr out \<longrightarrow>
      length out = length (mDisplayFrames ft) \<and>
      (\<forall>i < length out.
         DisplayFrame_dump (frames ft (mDisplayFrames ft ! i)) (dump_baseTime ft)
           = Inr (out ! i)))
   \<and> (dumpJank ft = Inr outs \<longrightarrow>
      (\<forall>(i, dd) \<in> set outs.
         i < length (mDisplayFrames ft) \<and>
         DisplayFrame_dump (frames ft (mDisplayFrames ft ! i)) (dump_baseTime ft) = Inr dd))
   \<and> (DisplayFrame_dump d b = Inr dd \<longrightarrow>
      dd_table dd = dumpTable (mSurfaceFlingerPredictions d) (mSurfaceFlingerActuals d)
                      (mPredictionState_df d) b \<and>
      map ds_table (dd_surfaces dd) =
        map (\<lambda>sf. dumpTable (mPredictions sf) (mActuals sf) (mPredictionState sf) b)
          (mSurfaceFrames d) \<and>
      map ds_latch (dd_surfaces dd) =
        map (\<lambda>sf. max 0 (mLastLatchTime sf - b)) (mSurfaceFrames d))
   \<and> dumpTable p a ps b =
       \<lparr>expected_times =
          (if ps = Valid then Some (startTime p - b, endTime p - b, presentTime p - b)
           else None),
        actual_start = (if startTime a = 0 then None else Some (max 0 (startTime a - b))),
        actual_end = (if endTime a \<le> 0 then None else Some (endTime a - b)),
        actual_present =
          (if presentTime a = 0 then None else Some (max 0 (presentTime a - b)))\<rparr>
   \<and> (mDisplayFrames ft = [] \<longrightarrow> dump_baseTime ft = 0)
   \<and> (mDisplayFrames ft = first # rest \<longrightarrow>
        end_before_present (mSurfaceFlingerActuals (frames ft first)) \<longrightarrow>
        (\<forall>sf \<in> set (mSurfaceFrames (frames ft first)). end_before_present (mActuals sf)) \<longrightarrow>
        dump_baseTime ft = Min (set (consulted_times_df (frames ft first))))
   \<and> ((\<forall>a \<in> set (mDisplayFrames ft). dumpable (frames ft a)) \<longrightarrow>
        (\<exists>out. dumpAll ft = Inr out) \<and> (\<exists>outs. dumpJank ft = Inr outs))"
proof -
  have A: "dumpAll ft = Inr out \<longrightarrow>
      length out = length (mDisplayFrames ft) \<and>
      (\<forall>i < length out.
         DisplayFrame_dump (frames ft (mDisplayFrames ft ! i)) (dump_baseTime ft)
           = Inr (out ! i))"
    using dumpAll_each_effect[of ft "dump_baseTime ft" "mDisplayFrames ft" out]
    by (simp add: dumpAll_def)
  have B: "dumpJank ft = Inr outs \<longrightarrow>
      (\<forall>(i, dd) \<in> set outs.
         i < length (mDisplayFrames ft) \<and>
         DisplayFrame_dump (frames ft (mDisplayFrames ft ! i)) (dump_baseTime ft) = Inr dd)"
    using dumpJank_each_effect[of ft "dump_baseTime ft" 0 "mDisplayFrames ft" outs]
    by (auto simp: dumpJank_def)
  have C: "DisplayFrame_dump d b = Inr dd \<longrightarrow>
      dd_table dd = dumpTable (mSurfaceFlingerPredictions d) (mSurfaceFlingerActuals d)
                      (mPredictionState_df d) b \<and>
      map ds_table (dd_surfaces dd) =
        map (\<lambda>sf. dumpTable (mPredictions sf) (mActuals sf) (mPredictionState sf) b)
          (mSurfaceFrames d) \<and>
      map ds_latch (dd_surfaces dd) =
        map (\<lambda>sf. max 0 (mLastLatchTime sf - b)) (mSurfaceFrames d)"
    using DisplayFrame_dump_effect[of d b dd] by simp
  have F: "dumpTable p a ps b =
       \<lparr>expected_times =
          (if ps = Valid then Some (startTime p - b, endTime p - b, presentTime p - b)
           else None),
        actual_start = (if startTime a = 0 then None else Some (max 0 (startTime a - b))),
        actual_end = (if endTime a \<le> 0 then None else Some (endTime a - b)),
        actual_present =
          (if presentTime a = 0 then None else Some (max 0 (presentTime a - b)))\<rparr>"
    by (simp add: dumpTable_def)
  have D: "(mDisplayFrames ft = [] \<longrightarrow> dump_baseTime ft = 0)
   \<and> (mDisplayFrames ft = first # rest \<longrightarrow>
        end_before_present (mSurfaceFlingerActuals (frames ft first)) \<longrightarrow>
        (\<forall>sf \<in> set (mSurfaceFrames (frames ft first)). end_before_present (mActuals sf)) \<longrightarrow>
        dump_baseTime ft = Min (set (consulted_times_df (frames ft first))))"
    by (simp add: dump_baseTime_def DisplayFrame_getBaseTime_Min)
  have E: "(\<forall>a \<in> set (mDisplayFrames ft). dumpable (frames ft a)) \<longrightarrow>
        (\<exists>out. dumpAll ft = Inr out) \<and> (\<exists>outs. dumpJank ft = Inr outs)"
    using dumpAll_each_returns[of "mDisplayFrames ft" ft "dump_baseTime ft"]
      dumpJank_each_returns[of "mDisplayFrames ft" ft "dump_baseTime ft" 0]
    by (simp add: dumpAll_def dumpJank_def)
  from A B C F D E show ?thesis by blast
qed

lemmas ex_dump_defs = ex_run_defs SurfaceFrame_onPresent_def setPresentState_def
  setActualStartTime_def setAcquireFenceTime_def SurfaceFrame_new_def SurfaceFrame_defaults_def

lemma ex_dump_state_eq:
  "mDisplayFrames ex_dump_state = [0, 1]"
  "frames ex_dump_state 0 =
    \<lparr>mToken_df = 0, mPredictionState_df = Valid,
      mSurfaceFlingerPredictions =
        \<lparr>startTime = 100000000, endTime = 110000000, presentTime = 116000000\<rparr>,
      mSurfaceFlingerActuals =
        \<lparr>startTime = 101000000, endTime = 111000000, presentTime = 116000000\<rparr>,
      mJankClassificationThresholds_df = ex_thresholds,
      mRefreshRate = ex_fps60, mJankType_df = 0,
      mFramePresentMetadata_df = OnTimePresent,
      mFrameReadyMetadata_df = OnTimeFinish,
      mFrameStartMetadata = UnknownStart,
      mSurfaceFrames =
        [\<lparr>mToken = 7, mInputEventId = 0, mOwnerPid = 100, mOwnerUid = 10000,
          mLayerName = ''layer'', mDebugName = ''layer#0'',
          mPresentState = Presented, mPredictionState = Valid,
          mPredictions =
            \<lparr>startTime = 95000000, endTime = 105000000, presentTime = 116000000\<rparr>,
          mActuals =
            \<lparr>startTime = 96000000, endTime = 105000000, presentTime = 116000000\<rparr>,
          mActualQueueTime = 0,
          mJankClassificationThresholds = ex_thresholds,
          mJankType = 0, mFramePresentMetadata = OnTimePresent,
          mFrameReadyMetadata = OnTimeFinish, mLastLatchTime = 104000000,
          mRenderRate = None\<rparr>]\<rparr>"
  "frames ex_dump_state (Suc 0) =
    \<lparr>mToken_df = 1, mPredictionState_df = Valid,
      mSurfaceFlingerPredictions =
        \<lparr>startTime = 200000000, endTime = 210000000, presentTime = 216000000\<rparr>,
      mSurfaceFlingerActuals =
        \<lparr>startTime = 201000000, endTime = 211000000, presentTime = 250000000\<rparr>,
      mJankClassificationThresholds_df = ex_thresholds,
      mRefreshRate = ex_fps60, mJankType_df = 1,
      mFramePresentMetadata_df = LatePresent,
      mFrameReadyMetadata_df = OnTimeFinish,
      mFrameStartMetadata = UnknownStart, mSurfaceFrames = []\<rparr>"
  by (simp_all add: ex_dump_state_def ex_dump_calls_def ex_dump_surface_def ex_dump_defs
      ex_fences_116_def ex_fences_250_def JankType_None_def DisplayHAL_def)

lemmas ex_dump_eval = dumpAll_def dumpJank_def dump_baseTime_def DisplayFrame_dump_def
  DisplayFrame_dumpJank_def SurfaceFrame_dump_def dumpTable_def jankTypeBitmaskToString_def
  jank_names_def JankType_None_def DisplayHAL_def SurfaceFlingerCpuDeadlineMissed_def
  SurfaceFlingerGpuDeadlineMissed_def AppDeadlineMissed_def PredictionError_def
  SurfaceFlingerScheduling_def BufferStuffing_def JankType_Unknown_def rem_nsecs_def
  ex_fps60_def getJankType_def DisplayFrame_getBaseTime_def SurfaceFrame_getBaseTime_def
  getMinTime_def nsecs_max_def Let_def

text \<open>
  The example: a history of two display frames. The first, presented on time at 116 ms,
  holds a surface frame with predictions from 95 ms; the second is presented late, at
  250 ms, and is the only one \<^verbatim>\<open>dumpJank\<close> prints. Every time of both dumps is printed
  less the 95 ms of the first frame's surface frame. A new timeline has an empty history
  and the base time 0.
\<close>

theorem dump_base_time_witness:
  "mDisplayFrames ex_timeline = [] \<and> dump_baseTime ex_timeline = 0 \<and>
   mDisplayFrames ex_dump_state = 0 # [1] \<and>
   end_before_present (mSurfaceFlingerActuals (frames ex_dump_state 0)) \<and>
   map (\<lambda>sf. end_before_present (mActuals sf)) (mSurfaceFrames (frames ex_dump_state 0))
     = [True] \<and>
   list_all (\<lambda>a. dumpable (frames ex_dump_state a)) (mDisplayFrames ex_dump_state) \<and>
   dump_baseTime ex_dump_state = 95000000 \<and>
   map dd_table (projr (dumpAll ex_dump_state)) =
     [\<lparr>expected_times = Some (5000000, 15000000, 21000000),
       actual_start = Some 6000000, actual_end = Some 16000000,
       actual_present = Some 21000000\<rparr>,
      \<lparr>expected_times = Some (105000000, 115000000, 121000000),
       actual_start = Some 106000000, actual_end = Some 116000000,
       actual_present = Some 155000000\<rparr>] \<and>
   map (\<lambda>dd. map ds_table (dd_surfaces dd)) (projr (dumpAll ex_dump_state)) =
     [[\<lparr>expected_times = Some (0, 10000000, 21000000),
        actual_start = Some 1000000, actual_end = Some 10000000,
        actual_present = Some 21000000\<rparr>],
      []] \<and>
   map (\<lambda>dd. map ds_latch (dd_surfaces dd)) (projr (dumpAll ex_dump_state)) =
     [[9000000], []] \<and>
   map (\<lambda>(i, dd). (i, dd_table dd)) (projr (dumpJank ex_dump_state)) =
     [(1, \<lparr>expected_times = Some (105000000, 115000000, 121000000),
           actual_start = Some 106000000, actual_end = Some 116000000,
           actual_present = Some 155000000\<rparr>)]"
proof -
  note T = dump_base_time[where ft = ex_dump_state and first = 0 and rest = "[1]"]
  note rest = T[THEN conjunct2, THEN conjunct2, THEN conjunct2, THEN conjunct2, THEN conjunct2]
  have e0: "mDisplayFrames ex_timeline = []"
    by (simp add: ex_timeline_def FrameTimeline_new_def)
  from dump_base_time[where ft = ex_timeline, THEN conjunct2, THEN conjunct2, THEN conjunct2,
      THEN conjunct2, THEN conjunct1, THEN mp, OF e0]
  have b0: "dump_baseTime ex_timeline = 0" .
  have h1: "mDisplayFrames ex_dump_state = 0 # [1]"
    by (simp add: ex_dump_state_eq)
  have h2: "end_before_present (mSurfaceFlingerActuals (frames ex_dump_state 0))"
    by (simp add: ex_dump_state_eq end_before_present_def)
  have h3: "\<forall>sf \<in> set (mSurfaceFrames (frames ex_dump_state 0)).
      end_before_present (mActuals sf)"
    by (simp add: ex_dump_state_eq end_before_present_def)
  have h4: "\<forall>a \<in> set (mDisplayFrames ex_dump_state). dumpable (frames ex_dump_state a)"
    by (simp add: ex_dump_state_eq dumpable_def known_causes_def ex_fps60_def)
  have "Min (set (consulted_times_df (frames ex_dump_state 0))) = 95000000"
    by (simp add: ex_dump_state_eq consulted_times_df_def consulted_times_def nsecs_max_def)
  with rest[THEN conjunct1, THEN mp, OF h1, THEN mp, OF h2, THEN mp, OF h3]
  have b: "dump_baseTime ex_dump_state = 95000000"
    by simp
  from rest[THEN conjunct2, THEN mp, OF h4]
  obtain out outs where o: "dumpAll ex_dump_state = Inr out"
    and j: "dumpJank ex_dump_state = Inr outs"
    by blast
  from T[where out = out, THEN conjunct1, THEN mp, OF o]
  have len: "length out = 2"
    and d: "\<forall>i < length out.
      DisplayFrame_dump (frames ex_dump_state (mDisplayFrames ex_dump_state ! i)) 95000000
        = Inr (out ! i)"
    by (simp_all add: h1 b)
  from len obtain r0 r1 where out: "out = [r0, r1]"
    by (auto simp: length_Suc_conv numeral_2_eq_2)
  have d0: "DisplayFrame_dump (frames ex_dump_state 0) 95000000 = Inr r0"
    using d[THEN spec, of 0] by (simp add: out h1)
  have d1: "DisplayFrame_dump (frames ex_dump_state (Suc 0)) 95000000 = Inr r1"
    using d[THEN spec, of "Suc 0"] by (simp add: out h1)
  note t0 = T[where d = "frames ex_dump_state 0" and b = 95000000 and dd = r0,
      THEN conjunct2, THEN conjunct2, THEN conjunct1, THEN mp, OF d0]
  note t1 = T[where d = "frames ex_dump_state (Suc 0)" and b = 95000000 and dd = r1,
      THEN conjunct2, THEN conjunct2, THEN conjunct1, THEN mp, OF d1]
  have all: "map dd_table (projr (dumpAll ex_dump_state)) =
     [\<lparr>expected_times = Some (5000000, 15000000, 21000000),
       actual_start = Some 6000000, actual_end = Some 16000000,
       actual_present = Some 21000000\<rparr>,
      \<lparr>expected_times = Some (105000000, 115000000, 121000000),
       actual_start = Some 106000000, actual_end = Some 116000000,
       actual_present = Some 155000000\<rparr>]"
    using t0 t1 by (simp add: o out ex_dump_state_eq dumpTable_def)
  have surfaces: "map (\<lambda>dd. map ds_table (dd_surfaces dd)) (projr (dumpAll ex_dump_state)) =
     [[\<lparr>expected_times = Some (0, 10000000, 21000000),
        actual_start = Some 1000000, actual_end = Some 10000000,
        actual_present = Some 21000000\<rparr>],
      []]"
    using t0 t1 by (simp add: o out ex_dump_state_eq dumpTable_def)
  have latch: "map (\<lambda>dd. map ds_latch (dd_surfaces dd)) (projr (dumpAll ex_dump_state)) =
     [[9000000], []]"
    using t0 t1 by (simp add: o out ex_dump_state_eq)
  have "map fst (projr (dumpJank ex_dump_state)) = [Suc 0]"
    by (simp add: ex_dump_eval ex_dump_state_eq)
  then obtain r where outs: "outs = [(Suc 0, r)]"
    by (auto simp: j)
  from T[where outs = outs, THEN conjunct2, THEN conjunct1, THEN mp, OF j]
  have dj: "DisplayFrame_dump (frames ex_dump_state (Suc 0)) 95000000 = Inr r"
    by (simp add: outs h1 b)
  note tj = T[where d = "frames ex_dump_state (Suc 0)" and b = 95000000 and dd = r,
      THEN conjunct2, THEN conjunct2, THEN conjunct1, THEN mp, OF dj]
  have jank: "map (\<lambda>(i, dd). (i, dd_table dd)) (projr (dumpJank ex_dump_state)) =
     [(1, \<lparr>expected_times = Some (105000000, 115000000, 121000000),
           actual_start = Some 106000000, actual_end = Some 116000000,
           actual_present = Some 155000000\<rparr>)]"
    using tj by (simp add: j outs ex_dump_state_eq dumpTable_def)
  have h3': "map (\<lambda>sf. end_before_present (mActuals sf))
      (mSurfaceFrames (frames ex_dump_state 0)) = [True]"
    by (simp add: ex_dump_state_eq end_before_present_def)
  have h4': "list_all (\<lambda>a. dumpable (frames ex_dump_state a)) (mDisplayFrames ex_dump_state)"
    using h4 by (simp add: list_all_iff)
  from e0 b0 h1 h2 h3' h4' b all surfaces latch jank show ?thesis
    by blast
qed

lemmas ex_two_frame_defs = ex_two_frame_state_def ex_two_frames_def ex_one_frame_def
  ex_timeline_def FrameTimeline_new_def setSfWakeUp_def setSfPresent_def addSurfaceFrame_def
  flushPendingPresentFences_def finalizeCurrentDisplayFrame_def pop_older_drop Let_def
  ex_fences_116_def ex_fences_216_def SIGNAL_TIME_PENDING_def SIGNAL_TIME_INVALID_def
  getPredictionsForToken_def generateTokenForPredictions_def ex_tm_def
  DisplayFrame_onPresent_def onSfWakeUp_def setActualEndTime_def DisplayFrame_new_def
  DisplayFrame_defaults_def DisplayFrame_addSurfaceFrame_def SurfaceFrame_onPresent_def
  ex_early_surface_def setPresentState_def setActualStartTime_def SurfaceFrame_new_def
  SurfaceFrame_defaults_def rem_nsecs_def ex_fps60_def ex_thresholds_def Fps_default_def

text \<open>
  C4 as stated fails: two display frames are presented at 116 ms and 216 ms, the second
  holding a surface frame whose work started at 50 ms, before anything in the first frame.
  The base time of the dump is the first frame's 100 ms and not the smallest set timestamp
  of the dump, 50 ms: the predicted times of both frames are printed less 100 ms. The
  start at 50 ms, which is before the base time, is printed as 0, as the predicted start
  at 100 ms is.
\<close>

theorem dump_base_time_counterexample:
  "dump_baseTime ex_two_frame_state = 100000000 \<and>
   Min (set (dump_set_times ex_two_frame_state)) = 50000000 \<and>
   map (\<lambda>dd. expected_times (dd_table dd)) (projr (dumpAll ex_two_frame_state)) =
     [Some (0, 10000000, 16000000), Some (100000000, 110000000, 116000000)] \<and>
   map (\<lambda>dd. map (\<lambda>s. actual_start (ds_table s)) (dd_surfaces dd))
     (projr (dumpAll ex_two_frame_state)) = [[], [Some 0]]"
proof -
  have b: "dump_baseTime ex_two_frame_state = 100000000"
    by (simp add: dump_baseTime_def DisplayFrame_getBaseTime_def getMinTime_def nsecs_max_def
        ex_two_frame_defs)
  have "dump_set_times ex_two_frame_state =
      [100000000, 110000000, 116000000, 101000000, 111000000, 116000000,
       200000000, 210000000, 216000000, 201000000, 211000000, 216000000,
       50000000, 216000000]"
    by (simp add: dump_set_times_def DisplayFrame_set_times_def set_times_def
        ex_two_frame_defs)
  then have m: "Min (set (dump_set_times ex_two_frame_state)) = 50000000"
    by simp
  have "map (\<lambda>dd. expected_times (dd_table dd)) (projr (dumpAll ex_two_frame_state)) =
     [Some (0, 10000000, 16000000), Some (100000000, 110000000, 116000000)]"
    and "map (\<lambda>dd. map (\<lambda>s. actual_start (ds_table s)) (dd_surfaces dd))
     (projr (dumpAll ex_two_frame_state)) = [[], [Some 0]]"
    by (simp_all add: ex_dump_eval ex_two_frame_defs)
  with b m show ?thesis by simp
qed

text \<open>
  The branch of \<^verbatim>\<open>getMinTime\<close> for a set actual present time compares with the actual end
  time: a record with only its present time set gets the minimum 0.
\<close>

lemma getMinTime_present_only:
  "getMinTime PredictionState_None p \<lparr>startTime = 0, endTime = 0, presentTime = 5000000\<rparr> = 0"
  by (simp add: getMinTime_def nsecs_max_def Let_def)

end
